theory Spec2Isabelle
  imports Complex_Main
begin

section \<open>The lateral torque controller of selfdrive/controls/lib/latcontrol_torque.py\<close>

text \<open>
  Python floats are read as real numbers: every formula of the controller is modelled by
  the exact arithmetic it denotes, and rounding, infinities and NaN are left out. Python
  integers (the two cycle counters) are \<open>int\<close>. A call that can raise returns a value of
  \<open>error + 'a\<close>, with \<open>Inl\<close> for the exception; an exception leaves \<open>update\<close> and ends the
  cycle, so no state is returned with it.
\<close>

subsection \<open>Exceptions\<close>

text \<open>
  The two places of the file where a float division can raise ZeroDivisionError are
  kept apart by a tag: the gains computed in \<open>live_tune\<close> (lines 54-55) and the
  yaw-rate curvature in \<open>update\<close> (line 76).
\<close>

datatype site = TorqueGains | YawRateCurvature

datatype error =
    DecimalError string
  | ZeroDivisionError site
  | IndexError

definition py_div :: "site \<Rightarrow> real \<Rightarrow> real \<Rightarrow> error + real" where
  "py_div s a b = (if b = 0 then Inl (ZeroDivisionError s) else Inr (a / b))"

definition py_index :: "'a list \<Rightarrow> nat \<Rightarrow> error + 'a" where
  "py_index xs n = (if n < length xs then Inr (xs ! n) else Inl IndexError)"

definition radians :: "real \<Rightarrow> real" where
  "radians x = x * pi / 180"

subsection \<open>Constants imported from other modules\<close>

text \<open>
  \<open>MIN_STEER_SPEED\<close> (selfdrive.controls.lib.latcontrol) and
  \<open>ACCELERATION_DUE_TO_GRAVITY\<close> (selfdrive.controls.lib.vehicle_model) are imported
  constants whose values are not part of this file; they are parameters of the model,
  together with the cycle period of the closed-loop controller.
\<close>

record Consts =
  MIN_STEER_SPEED :: real
  ACCELERATION_DUE_TO_GRAVITY :: real
  cycle_period :: real

definition FRICTION_THRESHOLD :: real where
  "FRICTION_THRESHOLD = 0.2"

subsection \<open>Interpolation and clamping (common.numpy_fast)\<close>

text \<open>
  Modelled from the spec: \<open>interp\<close> of common.numpy_fast is imported, not defined here.
  The spec describes it as linear interpolation over a table of breakpoints, clamped at
  the ends: constant at the first value up to the first breakpoint, constant at the last
  value beyond the last breakpoint, linear between two neighbouring breakpoints. Every
  call in this file passes two breakpoints and two values; a table without a breakpoint
  or a value is not a table, and the last equation is never reached from this file.
\<close>

fun interp_from :: "real \<Rightarrow> real \<Rightarrow> real \<Rightarrow> real list \<Rightarrow> real list \<Rightarrow> real" where
  "interp_from x x0 y0 (x1 # xp) (y1 # fp) =
     (if x \<le> x1 then (x - x0) * (y1 - y0) / (x1 - x0) + y0
      else interp_from x x1 y1 xp fp)"
| "interp_from x x0 y0 _ _ = y0"

fun interp :: "real \<Rightarrow> real list \<Rightarrow> real list \<Rightarrow> real" where
  "interp x (x0 # xp) (y0 # fp) = (if x \<le> x0 then y0 else interp_from x x0 y0 xp fp)"
| "interp x _ _ = 0"

text \<open>
  Modelled from the spec: the clamp of the closed-loop controller,
  \<open>clamp(v, neg_limit, pos_limit)\<close>.
\<close>

definition clip :: "real \<Rightarrow> real \<Rightarrow> real \<Rightarrow> real" where
  "clip x lo hi = max lo (min hi x)"

subsection \<open>The closed-loop controller (selfdrive.controls.lib.pid)\<close>

text \<open>
  Modelled from the spec: \<open>PIDController\<close> is imported, not defined here. Section 4.1 of
  the spec gives its contract: proportional term \<open>p_gain * error\<close>; feedforward term
  \<open>f_gain * feedforward\<close>; an integral that accumulates \<open>i_gain * error * cycle_period\<close>
  unless the integrator is frozen, the running sum clamped so that
  proportional + integral + feedforward stays within the limits; derivative term 0;
  output \<open>clamp(proportional + integral + feedforward, neg_limit, pos_limit)\<close>; the last
  terms are kept for diagnostics; \<open>reset\<close> zeroes the integral and the last terms and
  keeps gains and limits. A new controller starts as after \<open>reset\<close>.
\<close>

record PIDController =
  k_p :: real
  k_i :: real
  k_f :: real
  pos_limit :: real
  neg_limit :: real
  i_rate :: real
  pid_p :: real
  pid_i :: real
  pid_d :: real
  pid_f :: real

definition PIDController_reset :: "PIDController \<Rightarrow> PIDController" where
  "PIDController_reset c = c\<lparr>pid_p := 0, pid_i := 0, pid_d := 0, pid_f := 0\<rparr>"

definition PIDController_init ::
  "Consts \<Rightarrow> real \<Rightarrow> real \<Rightarrow> real \<Rightarrow> real \<Rightarrow> real \<Rightarrow> PIDController" where
  "PIDController_init env kp ki kf pos neg =
     PIDController_reset
       \<lparr>k_p = kp, k_i = ki, k_f = kf, pos_limit = pos, neg_limit = neg,
        i_rate = cycle_period env, pid_p = 0, pid_i = 0, pid_d = 0, pid_f = 0\<rparr>"

definition PIDController_update ::
  "PIDController \<Rightarrow> real \<Rightarrow> real \<Rightarrow> real \<Rightarrow> bool \<Rightarrow> real \<times> PIDController" where
  "PIDController_update c err feedforward speed freeze_integrator =
     (let p = k_p c * err;
          f = k_f c * feedforward;
          i = (if freeze_integrator then pid_i c
               else clip (pid_i c + k_i c * err * i_rate c)
                         (neg_limit c - p - f) (pos_limit c - p - f));
          control = clip (p + i + f) (neg_limit c) (pos_limit c)
      in (control, c\<lparr>pid_p := p, pid_i := i, pid_d := 0, pid_f := f\<rparr>))"

subsection \<open>Inputs of a cycle\<close>

record CarState =
  vEgo :: real
  steeringAngleDeg :: real
  steeringRateLimited :: bool
  steeringPressed :: bool

record LiveParameters =
  angleOffsetDeg :: real
  roll :: real

text \<open>\<open>llk.angularVelocityCalibrated.value\<close> is a list of floats; line 76 reads index 2.\<close>

record LiveLocationKalman =
  angularVelocityCalibrated_value :: "real list"

text \<open>\<open>CP.lateralTuning.torque\<close>, read by the constructor.\<close>

record CarParams =
  torque_kp :: real
  torque_ki :: real
  torque_kf :: real
  torque_useSteeringAngle :: bool
  torque_friction :: real

text \<open>
  Modelled from the spec: the persisted configuration store (common.params) is imported,
  not defined here. The spec gives \<open>get_bool(key) -> bool\<close> and \<open>get(key) -> string\<close>.
  The two boolean keys are their \<open>get_bool\<close> results. For the two numeric keys the
  field is the value of \<open>Decimal(params.get(key, encoding="utf8"))\<close>, and \<open>None\<close> where
  that expression raises (the key is absent or its text is not a decimal numeral). The
  store is written by other processes, so its content is an input of every cycle.
\<close>

record Params =
  CustomLateralTune :: bool
  TorqueUseSteeringAngle :: bool
  TorqueMaxLatAccel :: "real option"
  TorqueFriction :: "real option"

subsection \<open>The diagnostic record\<close>

record LateralTorqueState =
  log_active :: bool
  log_error :: real
  log_p :: real
  log_i :: real
  log_d :: real
  log_f :: real
  log_output :: real
  log_saturated :: bool

definition new_message :: LateralTorqueState where
  "new_message =
     \<lparr>log_active = False, log_error = 0, log_p = 0, log_i = 0, log_d = 0, log_f = 0,
      log_output = 0, log_saturated = False\<rparr>"

subsection \<open>The controller\<close>

text \<open>
  The attributes \<open>_torque_max_lat_accel\<close>, \<open>_torque_use_steering_angle\<close> and
  \<open>_torque_friction\<close> exist only once \<open>live_tune\<close> has applied a tuning: they are
  \<open>None\<close> before. \<open>self.params\<close> is the handle of the store, whose content is the
  \<open>Params\<close> argument of a cycle; \<open>get_steer_feedforward\<close> is never called in this file.
\<close>

record LatControlTorque =
  pid :: PIDController
  steer_max :: real
  use_steering_angle :: bool
  friction :: real
  mpc_frame :: int
  custom_tune :: bool
  custom_tune_timer :: int
  torque_max_lat_accel :: "real option"
  torque_use_steering_angle :: "bool option"
  torque_friction_attr :: "real option"

text \<open>Lines 26-40.\<close>

definition init :: "Consts \<Rightarrow> CarParams \<Rightarrow> LatControlTorque" where
  "init env CP =
     (let pid0 = PIDController_init env (torque_kp CP) (torque_ki CP) (torque_kf CP) 1 (- 1);
          steer_max0 = 1;
          pid0 = pid0\<lparr>pos_limit := steer_max0\<rparr>;
          pid0 = pid0\<lparr>neg_limit := - steer_max0\<rparr>
      in \<lparr>pid = pid0, steer_max = steer_max0,
          use_steering_angle = torque_useSteeringAngle CP,
          friction = torque_friction CP,
          mpc_frame = 0, custom_tune = False, custom_tune_timer = 0,
          torque_max_lat_accel = None, torque_use_steering_angle = None,
          torque_friction_attr = None\<rparr>)"

text \<open>Lines 42-44 (the base class keeps no state that this file reads).\<close>

definition reset :: "LatControlTorque \<Rightarrow> LatControlTorque" where
  "reset self = self\<lparr>pid := PIDController_reset (pid self)\<rparr>"

text \<open>Lines 46-56. The first of the three divisions of line 54 raises when the scaled
  value is zero.\<close>

definition live_tune :: "Consts \<Rightarrow> LatControlTorque \<Rightarrow> Params \<Rightarrow> CarParams \<Rightarrow> error + LatControlTorque" where
  "live_tune env self store CP =
     (let self = self\<lparr>mpc_frame := mpc_frame self + 1\<rparr> in
      if mpc_frame self mod 300 = 0 then
        (case TorqueMaxLatAccel store of
           None \<Rightarrow> Inl (DecimalError ''TorqueMaxLatAccel'')
         | Some a \<Rightarrow>
            (let self = self\<lparr>torque_max_lat_accel := Some (a * (1 / 10))\<rparr>;
                 self = self\<lparr>torque_use_steering_angle := Some (TorqueUseSteeringAngle store)\<rparr>
             in case TorqueFriction store of
                  None \<Rightarrow> Inl (DecimalError ''TorqueFriction'')
                | Some fr \<Rightarrow>
                   (let self = self\<lparr>torque_friction_attr := Some (fr * (1 / 100))\<rparr>;
                        self = self\<lparr>use_steering_angle := TorqueUseSteeringAngle store\<rparr>;
                        self = self\<lparr>friction := fr * (1 / 100)\<rparr>;
                        m = a * (1 / 10)
                    in case py_div TorqueGains 2 m of
                         Inl e \<Rightarrow> Inl e
                       | Inr kp \<Rightarrow>
                          Inr (self\<lparr>pid := PIDController_init env kp (1 / m) (0.5 / m) 1 (- 1),
                                    mpc_frame := 0\<rparr>))))
      else Inr self)"

text \<open>Lines 59-62: the poll of the toggle.\<close>

definition poll_toggle :: "LatControlTorque \<Rightarrow> Params \<Rightarrow> LatControlTorque" where
  "poll_toggle self store =
     (let self = self\<lparr>custom_tune_timer := custom_tune_timer self + 1\<rparr> in
      if custom_tune_timer self > 100
      then self\<lparr>custom_tune_timer := 0, custom_tune := CustomLateralTune store\<rparr>
      else self)"

text \<open>Lines 59-64: the poll, then the live tuning when the toggle is set.\<close>

definition tune_stage :: "Consts \<Rightarrow> LatControlTorque \<Rightarrow> Params \<Rightarrow> CarParams \<Rightarrow> error + LatControlTorque" where
  "tune_stage env self store CP =
     (let self = poll_toggle self store in
      if custom_tune self then live_tune env self store CP else Inr self)"

text \<open>Lines 72-77: the curvature the car is driving. \<open>VM\<close> is \<open>VM.calc_curvature\<close>, the
  kinematic model of the caller.\<close>

definition actual_curvature ::
  "LatControlTorque \<Rightarrow> CarState \<Rightarrow> (real \<Rightarrow> real \<Rightarrow> real \<Rightarrow> real) \<Rightarrow> LiveParameters
     \<Rightarrow> LiveLocationKalman \<Rightarrow> error + real" where
  "actual_curvature self CS VM params llk =
     (if use_steering_angle self then
        Inr (- VM (radians (steeringAngleDeg CS - angleOffsetDeg params)) (vEgo CS) (roll params))
      else
        (let actual_curvature_vm =
               - VM (radians (steeringAngleDeg CS - angleOffsetDeg params)) (vEgo CS) (roll params)
         in case py_index (angularVelocityCalibrated_value llk) 2 of
              Inl e \<Rightarrow> Inl e
            | Inr yaw_rate \<Rightarrow>
               (case py_div YawRateCurvature yaw_rate (vEgo CS) of
                  Inl e \<Rightarrow> Inl e
                | Inr actual_curvature_llk \<Rightarrow>
                   Inr (interp (vEgo CS) [2.0, 5.0] [actual_curvature_vm, actual_curvature_llk]))))"

text \<open>Line 82.\<close>

definition low_speed_factor :: "CarState \<Rightarrow> real" where
  "low_speed_factor CS = interp (vEgo CS) [0, 15] [500, 0]"

text \<open>Line 95.\<close>

definition friction_compensation :: "LatControlTorque \<Rightarrow> real \<Rightarrow> real" where
  "friction_compensation self err =
     interp err [- FRICTION_THRESHOLD, FRICTION_THRESHOLD] [- friction self, friction self]"

text \<open>
  Modelled from the spec: \<open>_check_saturation\<close> belongs to the base class \<open>LatControl\<close>,
  which is imported, not defined here. The spec says of the flag only that it is true
  iff the condition computed by \<open>update\<close> holds, so the method hands its first argument
  back.
\<close>

definition check_saturation :: "LatControlTorque \<Rightarrow> bool \<Rightarrow> CarState \<Rightarrow> bool" where
  "check_saturation self saturated CS = saturated"

text \<open>Lines 58-107. The result is the returned triple and the controller afterwards.\<close>

definition update ::
  "Consts \<Rightarrow> LatControlTorque \<Rightarrow> Params \<Rightarrow> bool \<Rightarrow> CarState \<Rightarrow> CarParams
     \<Rightarrow> (real \<Rightarrow> real \<Rightarrow> real \<Rightarrow> real) \<Rightarrow> LiveParameters \<Rightarrow> 'la \<Rightarrow> real \<Rightarrow> real
     \<Rightarrow> LiveLocationKalman
     \<Rightarrow> error + ((real \<times> real \<times> LateralTorqueState) \<times> LatControlTorque)" where
  "update env self store active CS CP VM params last_actuators desired_curvature
          desired_curvature_rate llk =
     (case tune_stage env self store CP of
        Inl e \<Rightarrow> Inl e
      | Inr self \<Rightarrow>
         (let pid_log = new_message in
          if vEgo CS < MIN_STEER_SPEED env \<or> \<not> active then
            (let output_torque = 0;
                 pid_log = pid_log\<lparr>log_active := False\<rparr>
             in Inr ((- output_torque, 0, pid_log), self))
          else
            (case actual_curvature self CS VM params llk of
               Inl e \<Rightarrow> Inl e
             | Inr actual_curv \<Rightarrow>
                (let desired_lateral_accel = desired_curvature * (vEgo CS)\<^sup>2;
                     desired_lateral_jerk = desired_curvature_rate * (vEgo CS)\<^sup>2;
                     actual_lateral_accel = actual_curv * (vEgo CS)\<^sup>2;
                     lsf = low_speed_factor CS;
                     setpoint = desired_lateral_accel + lsf * desired_curvature;
                     measurement = actual_lateral_accel + lsf * actual_curv;
                     err = setpoint - measurement;
                     pid_log = pid_log\<lparr>log_error := err\<rparr>;
                     ff = desired_lateral_accel - roll params * ACCELERATION_DUE_TO_GRAVITY env;
                     freeze_integrator =
                       (steeringRateLimited CS \<or> steeringPressed CS \<or> vEgo CS < 5);
                     (output_torque, pid') =
                       PIDController_update (pid self) err ff (vEgo CS) freeze_integrator;
                     self = self\<lparr>pid := pid'\<rparr>;
                     output_torque = output_torque + friction_compensation self err;
                     pid_log = pid_log\<lparr>log_active := True\<rparr>;
                     pid_log = pid_log\<lparr>log_p := pid_p (pid self)\<rparr>;
                     pid_log = pid_log\<lparr>log_i := pid_i (pid self)\<rparr>;
                     pid_log = pid_log\<lparr>log_d := pid_d (pid self)\<rparr>;
                     pid_log = pid_log\<lparr>log_f := pid_f (pid self)\<rparr>;
                     pid_log = pid_log\<lparr>log_output := - output_torque\<rparr>;
                     pid_log = pid_log\<lparr>log_saturated :=
                       check_saturation self (steer_max self - \<bar>output_torque\<bar> < 1 / 1000) CS\<rparr>
                 in Inr ((- output_torque, 0, pid_log), self)))))"

text \<open>A run of the control loop: one call of \<open>update\<close> per cycle, each with its own
  inputs; an exception ends the run.\<close>

record 'la cycle_input =
  in_store :: Params
  in_active :: bool
  in_CS :: CarState
  in_CP :: CarParams
  in_VM :: "real \<Rightarrow> real \<Rightarrow> real \<Rightarrow> real"
  in_params :: LiveParameters
  in_last_actuators :: 'la
  in_desired_curvature :: real
  in_desired_curvature_rate :: real
  in_llk :: LiveLocationKalman

fun run :: "Consts \<Rightarrow> LatControlTorque \<Rightarrow> 'la cycle_input list \<Rightarrow> error + LatControlTorque" where
  "run env self [] = Inr self"
| "run env self (x # xs) =
     (case update env self (in_store x) (in_active x) (in_CS x) (in_CP x) (in_VM x)
             (in_params x) (in_last_actuators x) (in_desired_curvature x)
             (in_desired_curvature_rate x) (in_llk x) of
        Inl e \<Rightarrow> Inl e
      | Inr (r, self') \<Rightarrow> run env self' xs)"

subsection \<open>Invariant of the limits\<close>

text \<open>The constructor sets the torque limit and the limits of the closed-loop controller
  to 1 and -1, and no later assignment changes them.\<close>

definition limits_ok :: "LatControlTorque \<Rightarrow> bool" where
  "limits_ok self \<longleftrightarrow> steer_max self = 1 \<and> pos_limit (pid self) = 1 \<and> neg_limit (pid self) = - 1"

subsection \<open>The tuning fields\<close>

text \<open>What the spec calls the tuning configuration: the gains and limits of the closed-loop
  controller, the steering-angle flag, the friction coefficient, and the three attributes
  in which \<open>live_tune\<close> keeps the values it read.\<close>

definition tuning ::
  "LatControlTorque \<Rightarrow> (real \<times> real \<times> real \<times> real \<times> real) \<times> bool \<times> real
     \<times> real option \<times> bool option \<times> real option" where
  "tuning self =
     ((k_p (pid self), k_i (pid self), k_f (pid self), pos_limit (pid self), neg_limit (pid self)),
      use_steering_angle self, friction self,
      torque_max_lat_accel self, torque_use_steering_angle self, torque_friction_attr self)"

subsection \<open>Example inputs\<close>

text \<open>Concrete constants, tunings, stores and sensor readings at which the theorems below
  are instantiated.\<close>

abbreviation env0 :: Consts where
  "env0 \<equiv> \<lparr>MIN_STEER_SPEED = 3 / 10, ACCELERATION_DUE_TO_GRAVITY = 981 / 100, cycle_period = 1 / 100\<rparr>"

abbreviation CP0 :: CarParams where
  "CP0 \<equiv> \<lparr>torque_kp = 1, torque_ki = 1 / 10, torque_kf = 1, torque_useSteeringAngle = True,
           torque_friction = 1 / 10\<rparr>"

abbreviation store0 :: "bool \<Rightarrow> Params" where
  "store0 b \<equiv> \<lparr>CustomLateralTune = b, TorqueUseSteeringAngle = False,
               TorqueMaxLatAccel = Some 27, TorqueFriction = Some 5\<rparr>"

abbreviation CS0 :: "real \<Rightarrow> CarState" where
  "CS0 v \<equiv> \<lparr>vEgo = v, steeringAngleDeg = 0, steeringRateLimited = False, steeringPressed = False\<rparr>"

abbreviation lp0 :: LiveParameters where
  "lp0 \<equiv> \<lparr>angleOffsetDeg = 0, roll = 0\<rparr>"

abbreviation llk0 :: "real \<Rightarrow> LiveLocationKalman" where
  "llk0 w \<equiv> \<lparr>angularVelocityCalibrated_value = [0, 0, w]\<rparr>"

abbreviation VM0 :: "real \<Rightarrow> real \<Rightarrow> real \<Rightarrow> real" where
  "VM0 \<equiv> \<lambda>sa u r. sa / 3"

text \<open>An Inactive cycle and an Active one at 10 m/s, and the controller after the Active
  cycle and after 398 further Inactive cycles with the toggle stored as set.\<close>

abbreviation idle :: "bool \<Rightarrow> unit cycle_input" where
  "idle b \<equiv> \<lparr>in_store = store0 b, in_active = False, in_CS = CS0 0, in_CP = CP0, in_VM = VM0,
             in_params = lp0, in_last_actuators = (), in_desired_curvature = 0,
             in_desired_curvature_rate = 0, in_llk = llk0 0\<rparr>"

abbreviation drive :: "bool \<Rightarrow> unit cycle_input" where
  "drive b \<equiv> \<lparr>in_store = store0 b, in_active = True, in_CS = CS0 10, in_CP = CP0, in_VM = VM0,
             in_params = lp0, in_last_actuators = (), in_desired_curvature = 1 / 1000,
             in_desired_curvature_rate = 0, in_llk = llk0 0\<rparr>"

abbreviation ctl_1 :: LatControlTorque where
  "ctl_1 \<equiv> (init env0 CP0)\<lparr>pid := (pid (init env0 CP0))\<lparr>pid_p := 4 / 15, pid_i := 1 / 3750,
                  pid_d := 0, pid_f := 1 / 10\<rparr>, custom_tune_timer := 1\<rparr>"

abbreviation ctl_399 :: LatControlTorque where
  "ctl_399 \<equiv> ctl_1\<lparr>custom_tune_timer := 96, custom_tune := True, mpc_frame := 299\<rparr>"

section \<open>Properties\<close>

subsection \<open>Auxiliary facts\<close>

lemma interp_two:
  "interp x [a, b] [ya, yb] =
     (if x \<le> a then ya else if x \<le> b then (x - a) * (yb - ya) / (b - a) + ya else yb)"
  by simp

lemma clip_bounds: "lo \<le> hi \<Longrightarrow> lo \<le> clip x lo hi \<and> clip x lo hi \<le> hi"
  by (simp add: clip_def)

lemma PID_update_fst:
  "fst (PIDController_update c e ff v fr) =
     clip (k_p c * e + (if fr then pid_i c else clip (pid_i c + k_i c * e * i_rate c)
            (neg_limit c - k_p c * e - k_f c * ff) (pos_limit c - k_p c * e - k_f c * ff)) + k_f c * ff)
       (neg_limit c) (pos_limit c)"
  by (simp add: PIDController_update_def Let_def)

lemma PID_update_gains:
  "k_p (snd (PIDController_update c e ff v fr)) = k_p c"
  "k_i (snd (PIDController_update c e ff v fr)) = k_i c"
  "k_f (snd (PIDController_update c e ff v fr)) = k_f c"
  "pos_limit (snd (PIDController_update c e ff v fr)) = pos_limit c"
  "neg_limit (snd (PIDController_update c e ff v fr)) = neg_limit c"
  "i_rate (snd (PIDController_update c e ff v fr)) = i_rate c"
  by (simp_all add: PIDController_update_def Let_def)

lemma update_inactive_eq:
  assumes "vEgo CS < MIN_STEER_SPEED env \<or> \<not> active"
  shows "update env self store active CS CP VM params la dc dcr llk =
     (case tune_stage env self store CP of
        Inl e \<Rightarrow> Inl e
      | Inr self1 \<Rightarrow> Inr ((0, 0, new_message\<lparr>log_active := False\<rparr>), self1))"
  using assms by (simp add: update_def Let_def split: sum.splits)

lemma update_active_eq:
  assumes "\<not> (vEgo CS < MIN_STEER_SPEED env \<or> \<not> active)"
    and "tune_stage env self store CP = Inr self1"
    and "actual_curvature self1 CS VM params llk = Inr c"
  shows "update env self store active CS CP VM params la dc dcr llk =
     (let err = (dc * (vEgo CS)\<^sup>2 + low_speed_factor CS * dc)
                 - (c * (vEgo CS)\<^sup>2 + low_speed_factor CS * c);
          ff = dc * (vEgo CS)\<^sup>2 - roll params * ACCELERATION_DUE_TO_GRAVITY env;
          r = PIDController_update (pid self1) err ff (vEgo CS)
                (steeringRateLimited CS \<or> steeringPressed CS \<or> vEgo CS < 5);
          self2 = self1\<lparr>pid := snd r\<rparr>;
          out = fst r + friction_compensation self2 err
      in Inr ((- out, 0,
               \<lparr>log_active = True, log_error = err, log_p = pid_p (snd r), log_i = pid_i (snd r),
                log_d = pid_d (snd r), log_f = pid_f (snd r), log_output = - out,
                log_saturated = (steer_max self1 - \<bar>out\<bar> < 1 / 1000)\<rparr>), self2))"
  using assms
  by (simp add: update_def Let_def new_message_def check_saturation_def split: prod.splits)

lemma tune_stage_fresh_off:
  "tune_stage env0 (init env0 CP0) (store0 False) CP0 = Inr ((init env0 CP0)\<lparr>custom_tune_timer := 1\<rparr>)"
  by (simp add: tune_stage_def poll_toggle_def init_def Let_def)

lemma actual_curvature_fresh:
  "actual_curvature ((init env0 CP0)\<lparr>custom_tune_timer := 1\<rparr>) (CS0 v) VM0 lp0 llk = Inr 0"
  by (simp add: actual_curvature_def init_def radians_def)

lemma init_limits_ok: "limits_ok (init env CP)"
  by (simp add: limits_ok_def init_def PIDController_init_def PIDController_reset_def Let_def)

lemma live_tune_limits_ok:
  "limits_ok s \<Longrightarrow> live_tune env s store CP = Inr s' \<Longrightarrow> limits_ok s'"
  by (auto simp add: limits_ok_def live_tune_def py_div_def Let_def PIDController_init_def
      PIDController_reset_def split: option.splits if_splits)

lemma poll_toggle_limits_ok: "limits_ok (poll_toggle s store) = limits_ok s"
  by (simp add: limits_ok_def poll_toggle_def Let_def)

lemma tune_stage_limits_ok:
  "limits_ok s \<Longrightarrow> tune_stage env s store CP = Inr s' \<Longrightarrow> limits_ok s'"
  using live_tune_limits_ok [of "poll_toggle s store" env store CP s']
  by (auto simp add: tune_stage_def Let_def poll_toggle_limits_ok split: if_splits)

lemma update_cases:
  assumes "update env self store active CS CP VM params la dc dcr llk = Inr ((torque, angle, plog), self')"
  obtains (inactive) "vEgo CS < MIN_STEER_SPEED env \<or> \<not> active"
      "tune_stage env self store CP = Inr self'" "torque = 0" "angle = 0"
      "plog = new_message\<lparr>log_active := False\<rparr>"
    | (active) self1 c err r where "\<not> (vEgo CS < MIN_STEER_SPEED env \<or> \<not> active)"
      "tune_stage env self store CP = Inr self1"
      "actual_curvature self1 CS VM params llk = Inr c"
      "err = (dc * (vEgo CS)\<^sup>2 + low_speed_factor CS * dc)
               - (c * (vEgo CS)\<^sup>2 + low_speed_factor CS * c)"
      "r = PIDController_update (pid self1) err
             (dc * (vEgo CS)\<^sup>2 - roll params * ACCELERATION_DUE_TO_GRAVITY env) (vEgo CS)
             (steeringRateLimited CS \<or> steeringPressed CS \<or> vEgo CS < 5)"
      "torque = - (fst r + friction_compensation self1 err)" "angle = 0"
      "plog = \<lparr>log_active = True, log_error = err, log_p = pid_p (snd r), log_i = pid_i (snd r),
                log_d = pid_d (snd r), log_f = pid_f (snd r), log_output = torque,
                log_saturated = (steer_max self1 - \<bar>torque\<bar> < 1 / 1000)\<rparr>"
      "self' = self1\<lparr>pid := snd r\<rparr>"
proof (cases "vEgo CS < MIN_STEER_SPEED env \<or> \<not> active")
  case True
  with assms have "tune_stage env self store CP = Inr self' \<and> torque = 0 \<and> angle = 0
      \<and> plog = new_message\<lparr>log_active := False\<rparr>"
    by (auto simp add: update_inactive_eq split: sum.splits)
  with True show ?thesis using inactive by blast
next
  case False
  with assms obtain self1 where s1: "tune_stage env self store CP = Inr self1"
    by (auto simp add: update_def split: sum.splits)
  with False assms obtain c where c: "actual_curvature self1 CS VM params llk = Inr c"
    by (auto simp add: update_def Let_def split: sum.splits)
  define err where "err = (dc * (vEgo CS)\<^sup>2 + low_speed_factor CS * dc)
               - (c * (vEgo CS)\<^sup>2 + low_speed_factor CS * c)"
  define r where "r = PIDController_update (pid self1) err
             (dc * (vEgo CS)\<^sup>2 - roll params * ACCELERATION_DUE_TO_GRAVITY env) (vEgo CS)
             (steeringRateLimited CS \<or> steeringPressed CS \<or> vEgo CS < 5)"
  have fc: "friction_compensation (self1\<lparr>pid := q\<rparr>) e = friction_compensation self1 e" for q e
    by (simp add: friction_compensation_def)
  have "Inr ((torque, angle, plog), self') =
      (Inr ((- (fst r + friction_compensation self1 err), 0,
               \<lparr>log_active = True, log_error = err, log_p = pid_p (snd r), log_i = pid_i (snd r),
                log_d = pid_d (snd r), log_f = pid_f (snd r),
                log_output = - (fst r + friction_compensation self1 err),
                log_saturated = (steer_max self1 - \<bar>fst r + friction_compensation self1 err\<bar> < 1 / 1000)\<rparr>),
             self1\<lparr>pid := snd r\<rparr>) :: error + ((real \<times> real \<times> LateralTorqueState) \<times> LatControlTorque))"
    using assms [symmetric] update_active_eq [OF False s1 c, of la dc dcr]
    by (simp add: Let_def err_def r_def fc)
  then have "torque = - (fst r + friction_compensation self1 err) \<and> angle = 0
      \<and> plog = \<lparr>log_active = True, log_error = err, log_p = pid_p (snd r), log_i = pid_i (snd r),
                log_d = pid_d (snd r), log_f = pid_f (snd r), log_output = torque,
                log_saturated = (steer_max self1 - \<bar>torque\<bar> < 1 / 1000)\<rparr>
      \<and> self' = self1\<lparr>pid := snd r\<rparr>"
    using abs_minus_cancel [of "fst r + friction_compensation self1 err"] by simp
  with False s1 c err_def r_def show ?thesis using active by blast
qed

lemma update_limits_ok:
  assumes "limits_ok self"
    and "update env self store active CS CP VM params la dc dcr llk = Inr (r, self')"
  shows "limits_ok self'"
proof -
  obtain torque angle plog where r: "r = (torque, angle, plog)" by (cases r) auto
  from assms(2) [unfolded r] show ?thesis
  proof (cases rule: update_cases)
    case inactive
    then show ?thesis using assms(1) tune_stage_limits_ok by blast
  next
    case (active self1 c err q)
    have l1: "limits_ok self1" using assms(1) active(2) tune_stage_limits_ok by blast
    then show ?thesis using active(5,9) by (simp add: limits_ok_def PID_update_gains)
  qed
qed

lemma run_limits_ok:
  "limits_ok s \<Longrightarrow> run env s xs = Inr s' \<Longrightarrow> limits_ok s'"
proof (induction xs arbitrary: s)
  case Nil
  then show ?case by simp
next
  case (Cons x xs)
  then show ?case
    by (auto split: sum.splits dest: update_limits_ok)
qed

lemma friction_compensation_abs: "\<bar>friction_compensation s e\<bar> \<le> \<bar>friction s\<bar>"
proof -
  have eq: "friction_compensation s e =
          (if e \<le> - (1 / 5) then - friction s
           else if e \<le> 1 / 5 then friction s * (e * 5)
           else friction s)"
    by (simp add: friction_compensation_def FRICTION_THRESHOLD_def field_simps)
  show ?thesis
  proof (cases "e \<le> - (1 / 5) \<or> \<not> e \<le> 1 / 5")
    case True
    then show ?thesis using eq by auto
  next
    case False
    then have "\<bar>e * 5\<bar> \<le> 1" by (simp add: abs_le_iff)
    then have "\<bar>friction s\<bar> * \<bar>e * 5\<bar> \<le> \<bar>friction s\<bar> * 1"
      by (intro mult_left_mono) auto
    then show ?thesis using eq False by (simp add: abs_mult)
  qed
qed

lemma friction_compensation_zero: "friction_compensation s 0 = 0"
  by (simp add: friction_compensation_def FRICTION_THRESHOLD_def)

lemma yaw_rate_division_raises_without_gate:
  "update (env0\<lparr>MIN_STEER_SPEED := 0\<rparr>) ((init env0 CP0)\<lparr>use_steering_angle := False\<rparr>)
       (store0 False) True (CS0 0) CP0 VM0 lp0 () (1 / 1000) 0 (llk0 (3 / 10))
   = Inl (ZeroDivisionError YawRateCurvature)"
  by (simp add: update_def tune_stage_def poll_toggle_def init_def Let_def actual_curvature_def
      py_index_def py_div_def)

lemma poll_toggle_fields:
  "custom_tune_timer (poll_toggle s store) = (if custom_tune_timer s + 1 > 100 then 0 else custom_tune_timer s + 1)"
  "custom_tune (poll_toggle s store) = (if custom_tune_timer s + 1 > 100 then CustomLateralTune store else custom_tune s)"
  "mpc_frame (poll_toggle s store) = mpc_frame s"
  "pid (poll_toggle s store) = pid s"
  "tuning (poll_toggle s store) = tuning s"
  by (simp_all add: poll_toggle_def Let_def tuning_def)

lemma live_tune_skip:
  "(mpc_frame s + 1) mod 300 \<noteq> 0 \<Longrightarrow> live_tune env s store CP = Inr (s\<lparr>mpc_frame := mpc_frame s + 1\<rparr>)"
  by (simp add: live_tune_def Let_def)

lemma live_tune_apply:
  assumes "(mpc_frame s + 1) mod 300 = 0"
    and "TorqueMaxLatAccel store = Some a" and "TorqueFriction store = Some fr" and "a \<noteq> 0"
  shows "live_tune env s store CP =
     Inr (s\<lparr>pid := \<lparr>k_p = 2 / (a * (1 / 10)), k_i = 1 / (a * (1 / 10)), k_f = 0.5 / (a * (1 / 10)),
                    pos_limit = 1, neg_limit = - 1, i_rate = cycle_period env,
                    pid_p = 0, pid_i = 0, pid_d = 0, pid_f = 0\<rparr>,
           use_steering_angle := TorqueUseSteeringAngle store,
           friction := fr * (1 / 100),
           mpc_frame := 0,
           torque_max_lat_accel := Some (a * (1 / 10)),
           torque_use_steering_angle := Some (TorqueUseSteeringAngle store),
           torque_friction_attr := Some (fr * (1 / 100))\<rparr>)"
  using assms
  by (simp add: live_tune_def Let_def py_div_def PIDController_init_def PIDController_reset_def)

lemma live_tune_returns_valid:
  assumes "(mpc_frame s + 1) mod 300 = 0" and "live_tune env s store CP = Inr s'"
  shows "\<exists>a fr. TorqueMaxLatAccel store = Some a \<and> TorqueFriction store = Some fr \<and> a \<noteq> 0"
proof (cases "TorqueMaxLatAccel store")
  case None
  then show ?thesis using assms by (simp add: live_tune_def Let_def)
next
  case (Some a)
  show ?thesis
  proof (cases "TorqueFriction store")
    case None
    then show ?thesis using assms Some by (simp add: live_tune_def Let_def)
  next
    case fr: (Some fr)
    have "a \<noteq> 0"
    proof
      assume "a = 0"
      then show False using assms Some fr by (simp add: live_tune_def Let_def py_div_def)
    qed
    then show ?thesis using Some fr by simp
  qed
qed

lemma live_tune_cases:
  assumes "live_tune env s store CP = Inr s'"
  obtains (skipped) "(mpc_frame s + 1) mod 300 \<noteq> 0" "s' = s\<lparr>mpc_frame := mpc_frame s + 1\<rparr>"
    | (applied) a fr where "(mpc_frame s + 1) mod 300 = 0"
        "TorqueMaxLatAccel store = Some a" "TorqueFriction store = Some fr" "a \<noteq> 0"
        "s' = s\<lparr>pid := \<lparr>k_p = 2 / (a * (1 / 10)), k_i = 1 / (a * (1 / 10)), k_f = 0.5 / (a * (1 / 10)),
                    pos_limit = 1, neg_limit = - 1, i_rate = cycle_period env,
                    pid_p = 0, pid_i = 0, pid_d = 0, pid_f = 0\<rparr>,
           use_steering_angle := TorqueUseSteeringAngle store,
           friction := fr * (1 / 100),
           mpc_frame := 0,
           torque_max_lat_accel := Some (a * (1 / 10)),
           torque_use_steering_angle := Some (TorqueUseSteeringAngle store),
           torque_friction_attr := Some (fr * (1 / 100))\<rparr>"
proof (cases "(mpc_frame s + 1) mod 300 = 0")
  case False
  then show ?thesis using assms live_tune_skip [OF False, of env store CP] skipped by simp
next
  case True
  from live_tune_returns_valid [OF True assms] obtain a fr where
    v: "TorqueMaxLatAccel store = Some a" "TorqueFriction store = Some fr" "a \<noteq> 0" by blast
  from live_tune_apply [OF True v, of env CP] assms applied [OF True v] show ?thesis by simp
qed

lemma live_tune_timer:
  assumes "live_tune env s store CP = Inr s'"
  shows "custom_tune_timer s' = custom_tune_timer s \<and> custom_tune s' = custom_tune s"
  using assms by (cases rule: live_tune_cases) simp_all

lemma tune_stage_timer:
  assumes "tune_stage env s store CP = Inr s'"
  shows "custom_tune_timer s' = custom_tune_timer (poll_toggle s store)
       \<and> custom_tune s' = custom_tune (poll_toggle s store)"
  using assms live_tune_timer [of env "poll_toggle s store" store CP s']
  by (auto simp add: tune_stage_def Let_def split: if_splits)

lemma update_tune_stage:
  assumes "update env s store active CS CP VM params la dc dcr llk = Inr (r, s')"
  obtains s1 where "tune_stage env s store CP = Inr s1"
    and "custom_tune_timer s' = custom_tune_timer s1" and "custom_tune s' = custom_tune s1"
    and "mpc_frame s' = mpc_frame s1" and "tuning s' = tuning s1"
    and "vEgo CS < MIN_STEER_SPEED env \<or> \<not> active \<Longrightarrow> s' = s1"
proof -
  obtain torque angle plog where r: "r = (torque, angle, plog)" by (cases r) auto
  from assms [unfolded r] show ?thesis
  proof (cases rule: update_cases)
    case inactive
    then show ?thesis using that by blast
  next
    case (active self1 c err q)
    have "tuning s' = tuning self1"
      unfolding active(9) active(5) by (simp add: tuning_def PID_update_gains)
    moreover have "custom_tune_timer s' = custom_tune_timer self1" "custom_tune s' = custom_tune self1"
      "mpc_frame s' = mpc_frame self1"
      unfolding active(9) by simp_all
    ultimately show ?thesis using that [of self1] active(1,2) by blast
  qed
qed

lemma update_timer:
  assumes "update env s store active CS CP VM params la dc dcr llk = Inr (r, s')"
  shows "custom_tune_timer s' = (if custom_tune_timer s + 1 > 100 then 0 else custom_tune_timer s + 1)"
    and "custom_tune s' = (if custom_tune_timer s + 1 > 100 then CustomLateralTune store else custom_tune s)"
  using assms tune_stage_timer [of env s store CP]
  by (auto elim!: update_tune_stage simp add: poll_toggle_fields)

lemma run_timer:
  "0 \<le> custom_tune_timer s \<Longrightarrow> custom_tune_timer s \<le> 100 \<Longrightarrow> run env s xs = Inr s' \<Longrightarrow>
     custom_tune_timer s' = (custom_tune_timer s + int (length xs)) mod 101"
proof (induction xs arbitrary: s)
  case Nil
  then show ?case by simp
next
  case (Cons x xs)
  from Cons.prems(3) obtain r s1 where
    u: "update env s (in_store x) (in_active x) (in_CS x) (in_CP x) (in_VM x) (in_params x)
          (in_last_actuators x) (in_desired_curvature x) (in_desired_curvature_rate x) (in_llk x)
        = Inr (r, s1)"
    and r: "run env s1 xs = Inr s'"
    by (auto split: sum.splits)
  have t: "custom_tune_timer s1 = (if custom_tune_timer s + 1 > 100 then 0 else custom_tune_timer s + 1)"
    using update_timer(1) [OF u] .
  then have "0 \<le> custom_tune_timer s1" "custom_tune_timer s1 \<le> 100"
    using Cons.prems(1,2) by auto
  then have "custom_tune_timer s' = (custom_tune_timer s1 + int (length xs)) mod 101"
    using Cons.IH r by blast
  also have "\<dots> = (custom_tune_timer s + int (length (x # xs))) mod 101"
  proof (cases "custom_tune_timer s + 1 > 100")
    case True
    then have "custom_tune_timer s = 100" using Cons.prems(2) by simp
    then show ?thesis using t by simp
  next
    case False
    then show ?thesis using t by (simp add: add.commute add.left_commute)
  qed
  finally show ?case .
qed

lemma wrap_iff:
  fixes n :: int and k :: int
  assumes "k = n mod 101"
  shows "((n + 1) mod 101 = 0) = (k + 1 > 100)"
proof -
  have b: "0 \<le> k" "k < 101" using assms by simp_all
  have e: "(n + 1) mod 101 = (k + 1) mod 101"
    unfolding assms by (simp add: mod_add_left_eq)
  show ?thesis
  proof (cases "k = 100")
    case True
    then show ?thesis using e by simp
  next
    case False
    then have "k + 1 < 101" "0 \<le> k + 1" using b by simp_all
    then have "(k + 1) mod 101 = k + 1" by simp
    then show ?thesis using e False b by simp
  qed
qed

lemma init_counters:
  "custom_tune_timer (init env CP) = 0" "mpc_frame (init env CP) = 0" "\<not> custom_tune (init env CP)"
  by (simp_all add: init_def Let_def)

lemma run_append:
  "run env s (xs @ ys) = (case run env s xs of Inl e \<Rightarrow> Inl e | Inr s' \<Rightarrow> run env s' ys)"
  by (induction xs arbitrary: s) (auto split: sum.splits)

lemma tune_stage_off:
  assumes "\<not> custom_tune s" and "custom_tune_timer s < 100"
  shows "tune_stage env s store CP = Inr (s\<lparr>custom_tune_timer := custom_tune_timer s + 1\<rparr>)"
  using assms by (simp add: tune_stage_def poll_toggle_def Let_def)

lemma idle_step_off:
  assumes "\<not> custom_tune s" and "custom_tune_timer s < 100"
  shows "update env s store False CS CP VM params la dc dcr llk
     = Inr ((0, 0, new_message\<lparr>log_active := False\<rparr>), s\<lparr>custom_tune_timer := custom_tune_timer s + 1\<rparr>)"
proof -
  have "tune_stage env s store CP = Inr (s\<lparr>custom_tune_timer := custom_tune_timer s + 1\<rparr>)"
    using assms by (simp add: tune_stage_def poll_toggle_def Let_def)
  then show ?thesis by (simp add: update_inactive_eq)
qed

lemma idle_step_poll:
  assumes "custom_tune_timer s = 100" and "CustomLateralTune store"
    and "(mpc_frame s + 1) mod 300 \<noteq> 0"
  shows "update env s store False CS CP VM params la dc dcr llk
     = Inr ((0, 0, new_message\<lparr>log_active := False\<rparr>),
            s\<lparr>custom_tune_timer := 0, custom_tune := True, mpc_frame := mpc_frame s + 1\<rparr>)"
proof -
  have p: "poll_toggle s store = s\<lparr>custom_tune_timer := 0, custom_tune := True\<rparr>"
    using assms by (simp add: poll_toggle_def Let_def)
  have "tune_stage env s store CP
      = Inr (s\<lparr>custom_tune_timer := 0, custom_tune := True, mpc_frame := mpc_frame s + 1\<rparr>)"
    using assms(3) live_tune_skip [of "s\<lparr>custom_tune_timer := 0, custom_tune := True\<rparr>" env store CP]
    by (simp add: tune_stage_def p Let_def)
  then show ?thesis by (simp add: update_inactive_eq)
qed

lemma idle_step_on:
  assumes "custom_tune s" and "CustomLateralTune store" and "(mpc_frame s + 1) mod 300 \<noteq> 0"
  shows "update env s store False CS CP VM params la dc dcr llk
     = Inr ((0, 0, new_message\<lparr>log_active := False\<rparr>),
            s\<lparr>custom_tune_timer := (if custom_tune_timer s + 1 > 100 then 0 else custom_tune_timer s + 1),
              mpc_frame := mpc_frame s + 1\<rparr>)"
proof -
  have p: "poll_toggle s store
      = s\<lparr>custom_tune_timer := (if custom_tune_timer s + 1 > 100 then 0 else custom_tune_timer s + 1)\<rparr>"
    using assms(1,2) by (cases s) (simp add: poll_toggle_def Let_def)
  have "tune_stage env s store CP
      = Inr (s\<lparr>custom_tune_timer := (if custom_tune_timer s + 1 > 100 then 0 else custom_tune_timer s + 1),
              mpc_frame := mpc_frame s + 1\<rparr>)"
    using assms(1,3) live_tune_skip [of "poll_toggle s store" env store CP]
    by (simp add: tune_stage_def poll_toggle_fields assms(2)) (simp add: p)
  then show ?thesis by (simp add: update_inactive_eq)
qed

lemma run_idle_off:
  "\<not> in_active x \<Longrightarrow> \<not> custom_tune s \<Longrightarrow> custom_tune_timer s + int n \<le> 100 \<Longrightarrow>
     run env s (replicate n x) = Inr (s\<lparr>custom_tune_timer := custom_tune_timer s + int n\<rparr>)"
proof (induction n arbitrary: s)
  case 0
  then show ?case by simp
next
  case (Suc n)
  have u: "update env s (in_store x) (in_active x) (in_CS x) (in_CP x) (in_VM x) (in_params x)
          (in_last_actuators x) (in_desired_curvature x) (in_desired_curvature_rate x) (in_llk x)
      = Inr ((0, 0, new_message\<lparr>log_active := False\<rparr>), s\<lparr>custom_tune_timer := custom_tune_timer s + 1\<rparr>)"
    using Suc.prems idle_step_off [of s env] by simp
  have "run env (s\<lparr>custom_tune_timer := custom_tune_timer s + 1\<rparr>) (replicate n x)
      = Inr (s\<lparr>custom_tune_timer := custom_tune_timer s + 1,
                custom_tune_timer := custom_tune_timer s + 1 + int n\<rparr>)"
    using Suc.IH [of "s\<lparr>custom_tune_timer := custom_tune_timer s + 1\<rparr>"] Suc.prems by simp
  then show ?case using u by (simp add: add.commute add.left_commute)
qed

lemma run_idle_on:
  "\<not> in_active x \<Longrightarrow> CustomLateralTune (in_store x) \<Longrightarrow> custom_tune s \<Longrightarrow>
   0 \<le> custom_tune_timer s \<Longrightarrow> custom_tune_timer s \<le> 100 \<Longrightarrow>
   0 \<le> mpc_frame s \<Longrightarrow> mpc_frame s + int n < 300 \<Longrightarrow>
     run env s (replicate n x)
       = Inr (s\<lparr>custom_tune_timer := (custom_tune_timer s + int n) mod 101,
                mpc_frame := mpc_frame s + int n\<rparr>)"
proof (induction n arbitrary: s)
  case 0
  then show ?case by simp
next
  case (Suc n)
  define t1 where "t1 = (if custom_tune_timer s + 1 > 100 then 0 else custom_tune_timer s + 1)"
  define s1 where "s1 = s\<lparr>custom_tune_timer := t1, mpc_frame := mpc_frame s + 1\<rparr>"
  have m: "(mpc_frame s + 1) mod 300 \<noteq> 0"
  proof -
    have "0 \<le> mpc_frame s + 1" "mpc_frame s + 1 < 300" using Suc.prems by simp_all
    then have "(mpc_frame s + 1) mod 300 = mpc_frame s + 1" by simp
    then show ?thesis using Suc.prems by simp
  qed
  have u: "update env s (in_store x) (in_active x) (in_CS x) (in_CP x) (in_VM x) (in_params x)
          (in_last_actuators x) (in_desired_curvature x) (in_desired_curvature_rate x) (in_llk x)
      = Inr ((0, 0, new_message\<lparr>log_active := False\<rparr>), s1)"
  proof -
    have f: "in_active x = False" using Suc.prems(1) by simp
    show ?thesis unfolding s1_def t1_def f
      by (rule idle_step_on [OF Suc.prems(3) Suc.prems(2) m])
  qed
  have t1: "0 \<le> t1" "t1 \<le> 100" using Suc.prems by (simp_all add: t1_def)
  have tm: "(t1 + int n) mod 101 = (custom_tune_timer s + int (Suc n)) mod 101"
  proof (cases "custom_tune_timer s + 1 > 100")
    case True
    then have "custom_tune_timer s = 100" using Suc.prems by simp
    then show ?thesis by (simp add: t1_def)
  next
    case False
    then show ?thesis by (simp add: t1_def add.commute add.left_commute)
  qed
  have "run env s1 (replicate n x)
      = Inr (s1\<lparr>custom_tune_timer := (custom_tune_timer s1 + int n) mod 101,
                 mpc_frame := mpc_frame s1 + int n\<rparr>)"
    using Suc.IH [of s1] Suc.prems t1 by (simp add: s1_def)
  then show ?case using u tm by (simp add: s1_def add.commute add.left_commute)
qed

lemma first_drive_cycle:
  "update env0 (init env0 CP0) (store0 b) True (CS0 10) CP0 VM0 lp0 () (1 / 1000) 0 (llk0 0)
       = Inr ((- (1751 / 3750), 0,
               \<lparr>log_active = True, log_error = 4 / 15, log_p = 4 / 15, log_i = 1 / 3750, log_d = 0,
                log_f = 1 / 10, log_output = - (1751 / 3750), log_saturated = False\<rparr>), ctl_1)"
proof -
  have t: "tune_stage env0 (init env0 CP0) (store0 b) CP0 = Inr ((init env0 CP0)\<lparr>custom_tune_timer := 1\<rparr>)"
    using tune_stage_off [of "init env0 CP0" env0 "store0 b" CP0] by (simp add: init_counters)
  show ?thesis
    using update_active_eq [OF _ t actual_curvature_fresh [where v = 10 and llk = "llk0 0"],
        where active = True and la = "()" and dc = "1 / 1000" and dcr = 0]
    by (simp add: Let_def low_speed_factor_def PIDController_update_def PIDController_init_def
        PIDController_reset_def clip_def friction_compensation_def FRICTION_THRESHOLD_def
        init_def power2_eq_square)
qed

lemma run_to_399:
  "run env0 (init env0 CP0) (drive True # replicate 99 (idle True) @ idle True # replicate 298 (idle True))
     = Inr ctl_399"
proof -
  have c: "custom_tune_timer ctl_1 = 1" "\<not> custom_tune ctl_1" "mpc_frame ctl_1 = 0"
    by (simp_all add: init_def)
  have r100: "run env0 ctl_1 (replicate 99 (idle True)) = Inr (ctl_1\<lparr>custom_tune_timer := 100\<rparr>)"
    using run_idle_off [of "idle True" ctl_1 99 env0] c by simp
  have r101: "update env0 (ctl_1\<lparr>custom_tune_timer := 100\<rparr>) (store0 True) False (CS0 0) CP0 VM0 lp0 () 0 0 (llk0 0)
      = Inr ((0, 0, new_message\<lparr>log_active := False\<rparr>),
             ctl_1\<lparr>custom_tune_timer := 0, custom_tune := True, mpc_frame := 1\<rparr>)"
    using idle_step_poll [of "ctl_1\<lparr>custom_tune_timer := 100\<rparr>" "store0 True" env0] c by simp
  have r399: "run env0 (ctl_1\<lparr>custom_tune_timer := 0, custom_tune := True, mpc_frame := 1\<rparr>)
        (replicate 298 (idle True)) = Inr ctl_399"
    using run_idle_on [of "idle True" "ctl_1\<lparr>custom_tune_timer := 0, custom_tune := True, mpc_frame := 1\<rparr>"
        298 env0] c by simp
  show ?thesis
    using first_drive_cycle [of True] r100 r101 r399 by (simp add: run_append)
qed

lemma cycle_400:
  "update env0 ctl_399 (store0 True) False (CS0 0) CP0 VM0 lp0 () 0 0 (llk0 0)
     = Inr ((0, 0, new_message\<lparr>log_active := False\<rparr>),
            ctl_399\<lparr>custom_tune_timer := 97,
                   pid := \<lparr>k_p = 20 / 27, k_i = 10 / 27, k_f = 5 / 27, pos_limit = 1, neg_limit = - 1,
                           i_rate = 1 / 100, pid_p = 0, pid_i = 0, pid_d = 0, pid_f = 0\<rparr>,
                   use_steering_angle := False, friction := 1 / 20, mpc_frame := 0,
                   torque_max_lat_accel := Some (27 / 10), torque_use_steering_angle := Some False,
                   torque_friction_attr := Some (1 / 20)\<rparr>)"
proof -
  have p: "poll_toggle ctl_399 (store0 True) = ctl_399\<lparr>custom_tune_timer := 97\<rparr>"
    by (simp add: poll_toggle_def Let_def)
  have l: "live_tune env0 (ctl_399\<lparr>custom_tune_timer := 97\<rparr>) (store0 True) CP0 =
     Inr (ctl_399\<lparr>custom_tune_timer := 97,
           pid := \<lparr>k_p = 2 / (27 * (1 / 10)), k_i = 1 / (27 * (1 / 10)), k_f = 0.5 / (27 * (1 / 10)),
                    pos_limit = 1, neg_limit = - 1, i_rate = cycle_period env0,
                    pid_p = 0, pid_i = 0, pid_d = 0, pid_f = 0\<rparr>,
           use_steering_angle := TorqueUseSteeringAngle (store0 True),
           friction := 5 * (1 / 100),
           mpc_frame := 0,
           torque_max_lat_accel := Some (27 * (1 / 10)),
           torque_use_steering_angle := Some (TorqueUseSteeringAngle (store0 True)),
           torque_friction_attr := Some (5 * (1 / 100))\<rparr>)"
    by (rule live_tune_apply) simp_all
  have t: "tune_stage env0 ctl_399 (store0 True) CP0
      = live_tune env0 (ctl_399\<lparr>custom_tune_timer := 97\<rparr>) (store0 True) CP0"
    unfolding tune_stage_def p Let_def by simp
  show ?thesis
    unfolding update_inactive_eq [of "CS0 0" env0 False, simplified] t l by simp
qed

lemma tune_stage_mpc_frame:
  assumes "0 \<le> mpc_frame s" and "mpc_frame s < 300" and "tune_stage env s store CP = Inr s1"
  shows "0 \<le> mpc_frame s1 \<and> mpc_frame s1 < 300"
proof (cases "custom_tune (poll_toggle s store)")
  case False
  then have "s1 = poll_toggle s store" using assms(3) by (simp add: tune_stage_def)
  then show ?thesis using assms(1,2) by (simp add: poll_toggle_fields)
next
  case True
  then have l: "live_tune env (poll_toggle s store) store CP = Inr s1"
    using assms(3) by (simp add: tune_stage_def)
  then show ?thesis
  proof (cases rule: live_tune_cases)
    case skipped
    then have "mpc_frame s + 1 \<noteq> 300" by (auto simp add: poll_toggle_fields)
    then show ?thesis using skipped(2) assms(1,2) by (simp add: poll_toggle_fields)
  next
    case (applied a fr)
    then show ?thesis by simp
  qed
qed

lemma run_mpc_frame:
  "0 \<le> mpc_frame s \<Longrightarrow> mpc_frame s < 300 \<Longrightarrow> run env s xs = Inr s' \<Longrightarrow>
     0 \<le> mpc_frame s' \<and> mpc_frame s' < 300"
proof (induction xs arbitrary: s)
  case Nil
  then show ?case by simp
next
  case (Cons x xs)
  from Cons.prems(3) obtain r s1 where
    u: "update env s (in_store x) (in_active x) (in_CS x) (in_CP x) (in_VM x) (in_params x)
          (in_last_actuators x) (in_desired_curvature x) (in_desired_curvature_rate x) (in_llk x)
        = Inr (r, s1)"
    and r: "run env s1 xs = Inr s'"
    by (auto split: sum.splits)
  from u obtain s0 where "tune_stage env s (in_store x) (in_CP x) = Inr s0" "mpc_frame s1 = mpc_frame s0"
    by (rule update_tune_stage)
  then have "0 \<le> mpc_frame s1 \<and> mpc_frame s1 < 300"
    using tune_stage_mpc_frame [OF Cons.prems(1,2)] by simp
  then show ?case using Cons.IH r by blast
qed

text \<open>Where the stored maximal lateral acceleration is zero, or a stored number cannot be
  read, the application of the live tuning raises instead of returning.\<close>

lemma live_tune_raises_on_zero:
  "live_tune env0 ctl_399 ((store0 True)\<lparr>TorqueMaxLatAccel := Some 0\<rparr>) CP0
     = Inl (ZeroDivisionError TorqueGains)"
  by (simp add: live_tune_def Let_def py_div_def)

lemma live_tune_raises_on_unreadable:
  "live_tune env0 ctl_399 ((store0 True)\<lparr>TorqueFriction := None\<rparr>) CP0
     = Inl (DecimalError ''TorqueFriction'')"
  by (simp add: live_tune_def Let_def py_div_def)


subsection \<open>The range of the torque command\<close>

text \<open>
  Claim C1, as stated, fails: the friction compensation is added after the clamp of the
  PID output. At 20 m/s with a desired curvature of 0.01 and a straight wheel, a fresh
  controller with gains 1, 0.1, 1 and friction 0.1 returns the torque -1.1.
\<close>

theorem torque_exceeds_unit_interval:
  "map_sum id (\<lambda>res. fst (fst res))
     (update env0 (init env0 CP0) (store0 False) True (CS0 20) CP0 VM0 lp0 () (1 / 100) 0 (llk0 0))
   = Inr (- (11 / 10))
   \<and> \<not> (- 1 \<le> - (11 / 10 :: real) \<and> - (11 / 10 :: real) \<le> 1)"
  using update_active_eq [OF _ tune_stage_fresh_off
        actual_curvature_fresh [where v = 20 and llk = "llk0 0"],
        where active = True and la = "()" and dc = "1 / 100" and dcr = 0]
  by (simp add: Let_def low_speed_factor_def PIDController_update_def PIDController_init_def
        PIDController_reset_def clip_def friction_compensation_def FRICTION_THRESHOLD_def
        init_def power2_eq_square)

text \<open>
  Claim C1, amended. In every cycle of a controller run from its construction, the
  torque command before the friction compensation lies in [-1, 1], the friction
  compensation is at most the friction coefficient in absolute value, and so the torque
  command lies within 1 + |friction| of zero.
\<close>

theorem torque_within_limit_plus_friction:
  assumes "run env (init env CP_init) xs = Inr self"
    and "update env self store active CS CP VM params last_actuators desired_curvature
           desired_curvature_rate llk = Inr ((torque, angle, plog), self')"
  shows "\<bar>torque + friction_compensation self' (log_error plog)\<bar> \<le> 1
       \<and> \<bar>friction_compensation self' (log_error plog)\<bar> \<le> \<bar>friction self'\<bar>
       \<and> \<bar>torque\<bar> \<le> 1 + \<bar>friction self'\<bar>"
proof -
  have l: "limits_ok self" using assms(1) init_limits_ok run_limits_ok by blast
  have a: "\<bar>torque + friction_compensation self' (log_error plog)\<bar> \<le> 1"
    using assms(2)
  proof (cases rule: update_cases)
    case inactive
    then show ?thesis by (simp add: new_message_def friction_compensation_zero)
  next
    case (active self1 c err r)
    have l1: "limits_ok self1" using l active(2) tune_stage_limits_ok by blast
    have fc: "friction_compensation self' e = friction_compensation self1 e" for e
      using active(9) by (simp add: friction_compensation_def)
    have "- 1 \<le> fst r \<and> fst r \<le> 1"
      using l1 clip_bounds [of "- 1" 1] by (simp add: active(5) PID_update_fst limits_ok_def)
    then show ?thesis using active(6,8) by (simp add: fc abs_le_iff)
  qed
  have b: "\<bar>friction_compensation self' (log_error plog)\<bar> \<le> \<bar>friction self'\<bar>"
    by (rule friction_compensation_abs)
  from a b show ?thesis by (simp add: abs_le_iff)
qed

theorem torque_within_limit_plus_friction_witness:
  "run env0 (init env0 CP0) ([] :: unit cycle_input list) = Inr (init env0 CP0)
   \<and> update env0 (init env0 CP0) (store0 False) True (CS0 10) CP0 VM0 lp0 () (1 / 1000) 0 (llk0 0)
       = Inr ((- (1751 / 3750), 0,
               \<lparr>log_active = True, log_error = 4 / 15, log_p = 4 / 15, log_i = 1 / 3750, log_d = 0,
                log_f = 1 / 10, log_output = - (1751 / 3750), log_saturated = False\<rparr>),
              (init env0 CP0)\<lparr>pid := (pid (init env0 CP0))\<lparr>pid_p := 4 / 15, pid_i := 1 / 3750,
                  pid_d := 0, pid_f := 1 / 10\<rparr>, custom_tune_timer := 1\<rparr>)
   \<and> \<bar>- (1751 / 3750) :: real\<bar> \<le> 1 + \<bar>1 / 10\<bar>"
proof -
  have h1: "run env0 (init env0 CP0) ([] :: unit cycle_input list) = Inr (init env0 CP0)" by simp
  have h2: "update env0 (init env0 CP0) (store0 False) True (CS0 10) CP0 VM0 lp0 () (1 / 1000) 0 (llk0 0)
       = Inr ((- (1751 / 3750), 0,
               \<lparr>log_active = True, log_error = 4 / 15, log_p = 4 / 15, log_i = 1 / 3750, log_d = 0,
                log_f = 1 / 10, log_output = - (1751 / 3750), log_saturated = False\<rparr>),
              (init env0 CP0)\<lparr>pid := (pid (init env0 CP0))\<lparr>pid_p := 4 / 15, pid_i := 1 / 3750,
                  pid_d := 0, pid_f := 1 / 10\<rparr>, custom_tune_timer := 1\<rparr>)"
    using update_active_eq [OF _ tune_stage_fresh_off
        actual_curvature_fresh [where v = 10 and llk = "llk0 0"],
        where active = True and la = "()" and dc = "1 / 1000" and dcr = 0]
    by (simp add: Let_def low_speed_factor_def PIDController_update_def PIDController_init_def
        PIDController_reset_def clip_def friction_compensation_def FRICTION_THRESHOLD_def
        init_def power2_eq_square)
  show ?thesis
    using h1 h2 torque_within_limit_plus_friction [OF h1 h2]
    by (simp add: init_def)
qed

subsection \<open>The Inactive cycle\<close>

text \<open>
  Claim C2, as stated, fails: the live tuning runs before the gate, so an Inactive cycle
  can replace the closed-loop controller. A controller that has driven one Active cycle
  (integral 1/3750) and then idled with the toggle stored as set reaches cycle 400 with
  the apply-counter at 299; that Inactive cycle returns torque 0 and leaves a new
  controller with other gains and a cleared integral.
\<close>

theorem inactive_cycle_replaces_controller:
  "run env0 (init env0 CP0)
       (drive True # replicate 99 (idle True) @ idle True # replicate 298 (idle True)) = Inr ctl_399
   \<and> map_sum id (\<lambda>res. (fst res, pid (snd res)))
       (update env0 ctl_399 (store0 True) False (CS0 0) CP0 VM0 lp0 () 0 0 (llk0 0))
     = Inr ((0, 0, new_message\<lparr>log_active := False\<rparr>),
            \<lparr>k_p = 20 / 27, k_i = 10 / 27, k_f = 5 / 27, pos_limit = 1, neg_limit = - 1,
             i_rate = 1 / 100, pid_p = 0, pid_i = 0, pid_d = 0, pid_f = 0\<rparr>)
   \<and> pid ctl_399 = \<lparr>k_p = 1, k_i = 1 / 10, k_f = 1, pos_limit = 1, neg_limit = - 1,
             i_rate = 1 / 100, pid_p = 4 / 15, pid_i = 1 / 3750, pid_d = 0, pid_f = 1 / 10\<rparr>"
proof -
  have q: "pid ctl_399 = \<lparr>k_p = 1, k_i = 1 / 10, k_f = 1, pos_limit = 1, neg_limit = - 1,
             i_rate = 1 / 100, pid_p = 4 / 15, pid_i = 1 / 3750, pid_d = 0, pid_f = 1 / 10\<rparr>"
    by (simp add: init_def PIDController_init_def PIDController_reset_def)
  have u: "map_sum id (\<lambda>res. (fst res, pid (snd res)))
       (update env0 ctl_399 (store0 True) False (CS0 0) CP0 VM0 lp0 () 0 0 (llk0 0))
     = Inr ((0, 0, new_message\<lparr>log_active := False\<rparr>),
            \<lparr>k_p = 20 / 27, k_i = 10 / 27, k_f = 5 / 27, pos_limit = 1, neg_limit = - 1,
             i_rate = 1 / 100, pid_p = 0, pid_i = 0, pid_d = 0, pid_f = 0\<rparr>)"
    by (subst cycle_400) simp
  show ?thesis using run_to_399 u q by blast
qed

text \<open>
  Claim C2, amended. In a cycle with the speed below \<open>MIN_STEER_SPEED\<close> or \<open>active\<close> unset,
  \<open>update\<close> does what the tuning stage does and nothing more: it raises what that stage
  raises, and otherwise returns torque 0, angle 0, a fresh diagnostic record whose active
  flag is false, and the controller the tuning stage left; no PID update is made. Unless
  the live tuning is applied in this cycle (custom tuning is on after the poll and the
  incremented apply-counter is a multiple of 300), the cycle returns and the closed-loop
  controller is unchanged.
\<close>

theorem inactive_cycle_bypass:
  assumes "vEgo CS < MIN_STEER_SPEED env \<or> \<not> active"
  shows "update env self store active CS CP VM params last_actuators desired_curvature
           desired_curvature_rate llk
         = (case tune_stage env self store CP of
              Inl e \<Rightarrow> Inl e
            | Inr self1 \<Rightarrow> Inr ((0, 0, new_message\<lparr>log_active := False\<rparr>), self1))
       \<and> \<not> log_active (new_message\<lparr>log_active := False\<rparr>)
       \<and> (\<not> (custom_tune (poll_toggle self store) \<and> (mpc_frame self + 1) mod 300 = 0) \<longrightarrow>
            (\<exists>self'. update env self store active CS CP VM params last_actuators desired_curvature
                        desired_curvature_rate llk
                      = Inr ((0, 0, new_message\<lparr>log_active := False\<rparr>), self')
                    \<and> pid self' = pid self))"
proof -
  have e: "update env self store active CS CP VM params last_actuators desired_curvature
           desired_curvature_rate llk
         = (case tune_stage env self store CP of
              Inl e \<Rightarrow> Inl e
            | Inr self1 \<Rightarrow> Inr ((0, 0, new_message\<lparr>log_active := False\<rparr>), self1))"
    using assms by (rule update_inactive_eq)
  have "\<exists>self1. tune_stage env self store CP = Inr self1 \<and> pid self1 = pid self"
    if n: "\<not> (custom_tune (poll_toggle self store) \<and> (mpc_frame self + 1) mod 300 = 0)"
  proof (cases "custom_tune (poll_toggle self store)")
    case True
    with n have "(mpc_frame (poll_toggle self store) + 1) mod 300 \<noteq> 0"
      by (simp add: poll_toggle_fields)
    from live_tune_skip [OF this, of env store CP] True show ?thesis
      by (simp add: tune_stage_def poll_toggle_fields)
  next
    case False
    then show ?thesis by (simp add: tune_stage_def poll_toggle_fields)
  qed
  then show ?thesis using e by auto
qed

theorem inactive_cycle_bypass_witness:
  "(vEgo (CS0 20) < MIN_STEER_SPEED env0 \<or> \<not> False)
   \<and> \<not> (custom_tune (poll_toggle ctl_1 (store0 True)) \<and> (mpc_frame ctl_1 + 1) mod 300 = 0)
   \<and> update env0 ctl_1 (store0 True) False (CS0 20) CP0 VM0 lp0 () (1 / 100) 0 (llk0 0)
      = Inr ((0, 0, new_message\<lparr>log_active := False\<rparr>), ctl_1\<lparr>custom_tune_timer := 2\<rparr>)
   \<and> pid (ctl_1\<lparr>custom_tune_timer := 2\<rparr>) = pid ctl_1"
proof -
  have h: "vEgo (CS0 20) < MIN_STEER_SPEED env0 \<or> \<not> False" by simp
  have c: "custom_tune_timer ctl_1 = 1" "\<not> custom_tune ctl_1" "mpc_frame ctl_1 = 0"
    by (simp_all add: init_def)
  have t: "tune_stage env0 ctl_1 (store0 True) CP0 = Inr (ctl_1\<lparr>custom_tune_timer := 2\<rparr>)"
    using tune_stage_off [of ctl_1 env0 "store0 True" CP0] c by simp
  show ?thesis
    using inactive_cycle_bypass [OF h, where self = ctl_1 and store = "store0 True" and CP = CP0
        and VM = VM0 and params = lp0 and last_actuators = "()" and desired_curvature = "1 / 100"
        and desired_curvature_rate = 0 and llk = "llk0 0"] t c
    by (simp add: poll_toggle_fields)
qed

subsection \<open>The poll of the toggle\<close>

text \<open>
  Claim C3, as stated, fails: the counter is reset when it exceeds 100, that is on the
  101st call. After 100 cycles of a fresh controller with the toggle stored as set, the
  counter is 100 and the toggle has not been read; the 101st cycle reads it.
\<close>

theorem toggle_not_polled_at_cycle_100:
  "map_sum id (\<lambda>s. (custom_tune_timer s, custom_tune s))
     (run env0 (init env0 CP0) (replicate 100 (idle True))) = Inr (100, False)
   \<and> map_sum id (\<lambda>s. (custom_tune_timer s, custom_tune s))
     (run env0 (init env0 CP0) (replicate 100 (idle True) @ [idle True])) = Inr (0, True)"
proof -
  have r100: "run env0 (init env0 CP0) (replicate 100 (idle True))
      = Inr ((init env0 CP0)\<lparr>custom_tune_timer := 100\<rparr>)"
    using run_idle_off [of "idle True" "init env0 CP0" 100 env0] by (simp add: init_counters)
  have r101: "update env0 ((init env0 CP0)\<lparr>custom_tune_timer := 100\<rparr>) (store0 True) False (CS0 0)
        CP0 VM0 lp0 () 0 0 (llk0 0)
      = Inr ((0, 0, new_message\<lparr>log_active := False\<rparr>),
             (init env0 CP0)\<lparr>custom_tune_timer := 0, custom_tune := True, mpc_frame := 1\<rparr>)"
    using idle_step_poll [of "(init env0 CP0)\<lparr>custom_tune_timer := 100\<rparr>" "store0 True" env0]
    by (simp add: init_counters)
  show ?thesis
    using r100 r101 by (simp add: run_append init_counters)
qed

text \<open>
  Claim C3, amended. For a controller run from its construction, the counter before
  cycle n + 1 is n mod 101. The cycle increments it by one, unless n + 1 is a multiple of
  101: then, and only then, the toggle is read again from the store and the counter is
  reset to 0. The toggle is thus read on every 101st cycle.
\<close>

theorem toggle_poll_period:
  assumes "run env (init env CP_init) xs = Inr self"
    and "update env self store active CS CP VM params last_actuators desired_curvature
           desired_curvature_rate llk = Inr (r, self')"
  shows "custom_tune_timer self = int (length xs) mod 101
       \<and> (if (int (length xs) + 1) mod 101 = 0
          then custom_tune_timer self' = 0 \<and> custom_tune self' = CustomLateralTune store
          else custom_tune_timer self' = custom_tune_timer self + 1 \<and> custom_tune self' = custom_tune self)"
proof -
  have t: "custom_tune_timer self = int (length xs) mod 101"
    using run_timer [OF _ _ assms(1)] by (simp add: init_counters)
  have "((int (length xs) + 1) mod 101 = 0) = (custom_tune_timer self + 1 > 100)"
    by (rule wrap_iff [OF t])
  then show ?thesis
    using t update_timer [OF assms(2)] by simp
qed

theorem toggle_poll_period_witness:
  "run env0 (init env0 CP0) (replicate 100 (idle True)) = Inr ((init env0 CP0)\<lparr>custom_tune_timer := 100\<rparr>)
   \<and> update env0 ((init env0 CP0)\<lparr>custom_tune_timer := 100\<rparr>) (store0 True) False (CS0 0)
        CP0 VM0 lp0 () 0 0 (llk0 0)
      = Inr ((0, 0, new_message\<lparr>log_active := False\<rparr>),
             (init env0 CP0)\<lparr>custom_tune_timer := 0, custom_tune := True, mpc_frame := 1\<rparr>)
   \<and> custom_tune_timer ((init env0 CP0)\<lparr>custom_tune_timer := 100\<rparr>) = 100
   \<and> (int (length (replicate 100 (idle True))) + 1) mod 101 = 0
   \<and> custom_tune_timer ((init env0 CP0)\<lparr>custom_tune_timer := 0, custom_tune := True, mpc_frame := 1\<rparr>) = 0
   \<and> custom_tune ((init env0 CP0)\<lparr>custom_tune_timer := 0, custom_tune := True, mpc_frame := 1\<rparr>)
        = CustomLateralTune (store0 True)"
proof -
  have h1: "run env0 (init env0 CP0) (replicate 100 (idle True))
      = Inr ((init env0 CP0)\<lparr>custom_tune_timer := 100\<rparr>)"
    using run_idle_off [of "idle True" "init env0 CP0" 100 env0] by (simp add: init_counters)
  have h2: "update env0 ((init env0 CP0)\<lparr>custom_tune_timer := 100\<rparr>) (store0 True) False (CS0 0)
        CP0 VM0 lp0 () 0 0 (llk0 0)
      = Inr ((0, 0, new_message\<lparr>log_active := False\<rparr>),
             (init env0 CP0)\<lparr>custom_tune_timer := 0, custom_tune := True, mpc_frame := 1\<rparr>)"
    using idle_step_poll [of "(init env0 CP0)\<lparr>custom_tune_timer := 100\<rparr>" "store0 True" env0]
    by (simp add: init_counters)
  show ?thesis
    using toggle_poll_period [OF h1 h2] h1 h2 by simp
qed

subsection \<open>Error and feedforward formation\<close>

text \<open>
  Claim C4. In an Active cycle (the speed is at least \<open>MIN_STEER_SPEED\<close> and \<open>active\<close> is
  set) in which the tuning stage and the curvature estimate return, with \<open>c\<close> the actual
  curvature: the low-speed factor is the interpolation of the speed over [0, 15] to
  [500, 0], constant beyond both ends; the setpoint is
  \<open>desired_curvature * v\<^sup>2 + low_speed_factor * desired_curvature\<close>, the measurement is
  \<open>c * v\<^sup>2 + low_speed_factor * c\<close>, the error is their difference and the feedforward is
  \<open>desired_curvature * v\<^sup>2 - roll * ACCELERATION_DUE_TO_GRAVITY\<close>; the controller kept by
  the cycle is the result of the PID update at exactly this error and feedforward, the
  logged error is this error, and the returned torque is the negated sum of the PID
  output and the friction compensation at this error.
\<close>

theorem update_error_and_feedforward:
  assumes "\<not> (vEgo CS < MIN_STEER_SPEED env \<or> \<not> active)"
    and "tune_stage env self store CP = Inr self1"
    and "actual_curvature self1 CS VM params llk = Inr c"
  shows "low_speed_factor CS =
           (if vEgo CS \<le> 0 then 500 else if vEgo CS \<le> 15 then 500 - 500 * vEgo CS / 15 else 0)
       \<and> (let setpoint = desired_curvature * (vEgo CS)\<^sup>2 + low_speed_factor CS * desired_curvature;
               measurement = c * (vEgo CS)\<^sup>2 + low_speed_factor CS * c;
               err = setpoint - measurement;
               ff = desired_curvature * (vEgo CS)\<^sup>2 - roll params * ACCELERATION_DUE_TO_GRAVITY env;
               r = PIDController_update (pid self1) err ff (vEgo CS)
                     (steeringRateLimited CS \<or> steeringPressed CS \<or> vEgo CS < 5)
           in map_sum id (\<lambda>res. (fst (fst res), log_error (snd (snd (fst res))), pid (snd res)))
                (update env self store active CS CP VM params last_actuators desired_curvature
                   desired_curvature_rate llk)
              = Inr (- (fst r + friction_compensation self1 err), err, snd r))"
proof -
  have "low_speed_factor CS =
           (if vEgo CS \<le> 0 then 500 else if vEgo CS \<le> 15 then 500 - 500 * vEgo CS / 15 else 0)"
    by (simp add: low_speed_factor_def field_simps)
  moreover have "friction_compensation (self1\<lparr>pid := q\<rparr>) e = friction_compensation self1 e" for q e
    by (simp add: friction_compensation_def)
  ultimately show ?thesis
    using update_active_eq [OF assms, of last_actuators desired_curvature desired_curvature_rate]
    by (simp add: Let_def)
qed

theorem update_error_and_feedforward_witness:
  "\<not> (vEgo (CS0 10) < MIN_STEER_SPEED env0 \<or> \<not> True)
   \<and> tune_stage env0 (init env0 CP0) (store0 False) CP0 = Inr ((init env0 CP0)\<lparr>custom_tune_timer := 1\<rparr>)
   \<and> actual_curvature ((init env0 CP0)\<lparr>custom_tune_timer := 1\<rparr>) (CS0 10) VM0 lp0 (llk0 0) = Inr 0
   \<and> low_speed_factor (CS0 10) = 500 / 3
   \<and> map_sum id (\<lambda>res. (fst (fst res), log_error (snd (snd (fst res))), pid (snd res)))
        (update env0 (init env0 CP0) (store0 False) True (CS0 10) CP0 VM0 lp0 () (1 / 1000) 0 (llk0 0))
      = Inr (- (1751 / 3750), 4 / 15,
             \<lparr>k_p = 1, k_i = 1 / 10, k_f = 1, pos_limit = 1, neg_limit = - 1, i_rate = 1 / 100,
              pid_p = 4 / 15, pid_i = 1 / 3750, pid_d = 0, pid_f = 1 / 10\<rparr>)"
proof -
  have h1: "\<not> (vEgo (CS0 10) < MIN_STEER_SPEED env0 \<or> \<not> True)" by simp
  have h2: "tune_stage env0 (init env0 CP0) (store0 False) CP0 = Inr ((init env0 CP0)\<lparr>custom_tune_timer := 1\<rparr>)"
    by (rule tune_stage_fresh_off)
  have h3: "actual_curvature ((init env0 CP0)\<lparr>custom_tune_timer := 1\<rparr>) (CS0 10) VM0 lp0 (llk0 0) = Inr 0"
    by (simp add: actual_curvature_def init_def radians_def)
  have h4: "low_speed_factor (CS0 10) = 500 / 3"
    by (simp add: low_speed_factor_def)
  show ?thesis
    using update_error_and_feedforward [OF h1 h2 h3, where last_actuators = "()"
        and desired_curvature = "1 / 1000" and desired_curvature_rate = 0] h1 h2 h3 h4
    by (simp add: Let_def PIDController_update_def PIDController_init_def PIDController_reset_def
        init_def clip_def friction_compensation_def FRICTION_THRESHOLD_def power2_eq_square
        split: sum.splits)
qed

subsection \<open>The curvature blend\<close>

text \<open>
  Claim C5. With \<open>use_steering_angle\<close> set, the actual curvature is the negated curvature
  of the kinematic model. Without it, when the yaw rate can be read (the list has an
  index 2) and the speed is not zero (as in every Active cycle with a positive
  \<open>MIN_STEER_SPEED\<close>), it is the interpolation over the speed with breakpoints 2 and 5
  between the negated model curvature and yaw rate / speed: exactly the model value at
  speed up to 2, exactly the yaw-rate value at speed 5 and above, linear in between.
\<close>

theorem actual_curvature_blend:
  "(use_steering_angle self \<longrightarrow>
      actual_curvature self CS VM params llk =
        Inr (- VM (radians (steeringAngleDeg CS - angleOffsetDeg params)) (vEgo CS) (roll params)))
   \<and> (\<not> use_steering_angle self \<and> 2 < length (angularVelocityCalibrated_value llk) \<and> vEgo CS \<noteq> 0 \<longrightarrow>
        (let vm = - VM (radians (steeringAngleDeg CS - angleOffsetDeg params)) (vEgo CS) (roll params);
             yaw = angularVelocityCalibrated_value llk ! 2 / vEgo CS
         in actual_curvature self CS VM params llk =
              Inr (if vEgo CS \<le> 2 then vm
                   else if vEgo CS \<le> 5 then vm + (vEgo CS - 2) / 3 * (yaw - vm)
                   else yaw)))"
  by (simp add: actual_curvature_def py_index_def py_div_def Let_def field_simps)

theorem actual_curvature_blend_witness:
  "actual_curvature ((init env0 CP0)\<lparr>use_steering_angle := True\<rparr>)
       \<lparr>vEgo = 3, steeringAngleDeg = 0, steeringRateLimited = False, steeringPressed = False\<rparr>
       (\<lambda>sa u r. u / 100) lp0 (llk0 (3 / 10)) = Inr (- (3 / 100))
   \<and> actual_curvature ((init env0 CP0)\<lparr>use_steering_angle := False\<rparr>)
       \<lparr>vEgo = 2, steeringAngleDeg = 0, steeringRateLimited = False, steeringPressed = False\<rparr>
       (\<lambda>sa u r. u / 100) lp0 (llk0 (3 / 10)) = Inr (- (2 / 100))
   \<and> actual_curvature ((init env0 CP0)\<lparr>use_steering_angle := False\<rparr>)
       \<lparr>vEgo = 3, steeringAngleDeg = 0, steeringRateLimited = False, steeringPressed = False\<rparr>
       (\<lambda>sa u r. u / 100) lp0 (llk0 (3 / 10)) = Inr (1 / 75)
   \<and> actual_curvature ((init env0 CP0)\<lparr>use_steering_angle := False\<rparr>)
       \<lparr>vEgo = 5, steeringAngleDeg = 0, steeringRateLimited = False, steeringPressed = False\<rparr>
       (\<lambda>sa u r. u / 100) lp0 (llk0 (3 / 10)) = Inr (3 / 50)"
  using actual_curvature_blend [of "(init env0 CP0)\<lparr>use_steering_angle := True\<rparr>" "CS0 3" "\<lambda>sa u r. u / 100" lp0 "llk0 (3 / 10)"]
    actual_curvature_blend [of "(init env0 CP0)\<lparr>use_steering_angle := False\<rparr>" "CS0 2" "\<lambda>sa u r. u / 100" lp0 "llk0 (3 / 10)"]
    actual_curvature_blend [of "(init env0 CP0)\<lparr>use_steering_angle := False\<rparr>" "CS0 3" "\<lambda>sa u r. u / 100" lp0 "llk0 (3 / 10)"]
    actual_curvature_blend [of "(init env0 CP0)\<lparr>use_steering_angle := False\<rparr>" "CS0 5" "\<lambda>sa u r. u / 100" lp0 "llk0 (3 / 10)"]
  by (simp add: Let_def)

subsection \<open>Live tuning\<close>

text \<open>
  Claim C6. For a controller run from its construction the apply-counter stays in
  0..299. Called with readable stored values and a non-zero maximal lateral acceleration,
  \<open>live_tune\<close> returns: at counter 299 (the 300th increment) it installs a new closed-loop
  controller with gains 2, 1 and 0.5 divided by the stored value times 0.1, limits 1 and
  -1 and all terms zero (the integral is cleared), the stored steering-angle flag and
  the stored friction times 0.01, and resets the counter to 0; at any other count it
  only increments the counter. In a cycle of \<open>update\<close> that returns: with custom tuning
  on after the poll, the tuning fields afterwards are those installed values when the
  counter was 299 (the stored values were then readable), and otherwise the tuning
  fields are unchanged and the counter is one more; with custom tuning off, neither the
  tuning fields nor the counter change.
\<close>

theorem live_tune_every_300:
  assumes "run env (init env CP_init) xs = Inr self"
  shows "0 \<le> mpc_frame self \<and> mpc_frame self < 300
       \<and> (\<forall>a fr. TorqueMaxLatAccel store = Some a \<and> TorqueFriction store = Some fr \<and> a \<noteq> 0 \<longrightarrow>
            live_tune env (poll_toggle self store) store CP =
              Inr (if mpc_frame self = 299
                   then (poll_toggle self store)
                     \<lparr>pid := \<lparr>k_p = 2 / (a * (1 / 10)), k_i = 1 / (a * (1 / 10)),
                              k_f = 0.5 / (a * (1 / 10)), pos_limit = 1, neg_limit = - 1,
                              i_rate = cycle_period env, pid_p = 0, pid_i = 0, pid_d = 0, pid_f = 0\<rparr>,
                      use_steering_angle := TorqueUseSteeringAngle store,
                      friction := fr * (1 / 100),
                      mpc_frame := 0,
                      torque_max_lat_accel := Some (a * (1 / 10)),
                      torque_use_steering_angle := Some (TorqueUseSteeringAngle store),
                      torque_friction_attr := Some (fr * (1 / 100))\<rparr>
                   else (poll_toggle self store)\<lparr>mpc_frame := mpc_frame self + 1\<rparr>))
       \<and> (\<forall>r self'. update env self store active CS CP VM params last_actuators desired_curvature
                        desired_curvature_rate llk = Inr (r, self') \<longrightarrow>
            (if custom_tune (poll_toggle self store) then
               (if mpc_frame self = 299 then
                  (\<exists>a fr. TorqueMaxLatAccel store = Some a \<and> TorqueFriction store = Some fr \<and> a \<noteq> 0
                     \<and> tuning self' =
                         ((2 / (a * (1 / 10)), 1 / (a * (1 / 10)), 0.5 / (a * (1 / 10)), 1, - 1),
                          TorqueUseSteeringAngle store, fr * (1 / 100),
                          Some (a * (1 / 10)), Some (TorqueUseSteeringAngle store),
                          Some (fr * (1 / 100)))
                     \<and> mpc_frame self' = 0)
                else tuning self' = tuning self \<and> mpc_frame self' = mpc_frame self + 1)
             else tuning self' = tuning self \<and> mpc_frame self' = mpc_frame self))"
proof -
  have b: "0 \<le> mpc_frame self \<and> mpc_frame self < 300"
    using run_mpc_frame [OF _ _ assms] by (simp add: init_counters)
  have w: "((mpc_frame (poll_toggle self store) + 1) mod 300 = 0) = (mpc_frame self = 299)"
  proof (cases "mpc_frame self = 299")
    case True
    then show ?thesis by (simp add: poll_toggle_fields)
  next
    case False
    then have "0 \<le> mpc_frame self + 1" "mpc_frame self + 1 < 300" using b by simp_all
    then have "(mpc_frame self + 1) mod 300 = mpc_frame self + 1" by simp
    then show ?thesis using False b by (simp add: poll_toggle_fields)
  qed
  have l: "live_tune env (poll_toggle self store) store CP =
              Inr (if mpc_frame self = 299
                   then (poll_toggle self store)
                     \<lparr>pid := \<lparr>k_p = 2 / (a * (1 / 10)), k_i = 1 / (a * (1 / 10)),
                              k_f = 0.5 / (a * (1 / 10)), pos_limit = 1, neg_limit = - 1,
                              i_rate = cycle_period env, pid_p = 0, pid_i = 0, pid_d = 0, pid_f = 0\<rparr>,
                      use_steering_angle := TorqueUseSteeringAngle store,
                      friction := fr * (1 / 100),
                      mpc_frame := 0,
                      torque_max_lat_accel := Some (a * (1 / 10)),
                      torque_use_steering_angle := Some (TorqueUseSteeringAngle store),
                      torque_friction_attr := Some (fr * (1 / 100))\<rparr>
                   else (poll_toggle self store)\<lparr>mpc_frame := mpc_frame self + 1\<rparr>)"
    if v: "TorqueMaxLatAccel store = Some a" "TorqueFriction store = Some fr" "a \<noteq> 0" for a fr
  proof (cases "mpc_frame self = 299")
    case True
    then have "(mpc_frame (poll_toggle self store) + 1) mod 300 = 0" using w by simp
    from live_tune_apply [OF this v, of env CP] True show ?thesis by simp
  next
    case False
    then have "(mpc_frame (poll_toggle self store) + 1) mod 300 \<noteq> 0" using w by simp
    from live_tune_skip [OF this, of env store CP] False show ?thesis
      by (simp add: poll_toggle_fields)
  qed
  have u: "if custom_tune (poll_toggle self store) then
               (if mpc_frame self = 299 then
                  (\<exists>a fr. TorqueMaxLatAccel store = Some a \<and> TorqueFriction store = Some fr \<and> a \<noteq> 0
                     \<and> tuning self' =
                         ((2 / (a * (1 / 10)), 1 / (a * (1 / 10)), 0.5 / (a * (1 / 10)), 1, - 1),
                          TorqueUseSteeringAngle store, fr * (1 / 100),
                          Some (a * (1 / 10)), Some (TorqueUseSteeringAngle store),
                          Some (fr * (1 / 100)))
                     \<and> mpc_frame self' = 0)
                else tuning self' = tuning self \<and> mpc_frame self' = mpc_frame self + 1)
             else tuning self' = tuning self \<and> mpc_frame self' = mpc_frame self"
    if "update env self store active CS CP VM params last_actuators desired_curvature
                        desired_curvature_rate llk = Inr (r, self')" for r self'
  proof -
    from that obtain s0 where t: "tune_stage env self store CP = Inr s0"
      and f: "mpc_frame self' = mpc_frame s0" "tuning self' = tuning s0"
      by (rule update_tune_stage)
    show ?thesis
    proof (cases "custom_tune (poll_toggle self store)")
      case False
      then have "s0 = poll_toggle self store" using t by (simp add: tune_stage_def)
      then show ?thesis using False f by (simp add: poll_toggle_fields)
    next
      case True
      then have "live_tune env (poll_toggle self store) store CP = Inr s0"
        using t by (simp add: tune_stage_def)
      then show ?thesis
      proof (cases rule: live_tune_cases)
        case skipped
        then have "mpc_frame self \<noteq> 299" using w by simp
        moreover have "tuning s0 = tuning (poll_toggle self store)"
          unfolding skipped(2) by (simp add: tuning_def)
        moreover have "mpc_frame s0 = mpc_frame self + 1"
          unfolding skipped(2) by (simp add: poll_toggle_fields)
        ultimately show ?thesis using True f by (simp add: poll_toggle_fields)
      next
        case (applied a fr)
        then have "mpc_frame self = 299" using w by simp
        moreover have "tuning s0 =
                         ((2 / (a * (1 / 10)), 1 / (a * (1 / 10)), 0.5 / (a * (1 / 10)), 1, - 1),
                          TorqueUseSteeringAngle store, fr * (1 / 100),
                          Some (a * (1 / 10)), Some (TorqueUseSteeringAngle store),
                          Some (fr * (1 / 100)))" "mpc_frame s0 = 0"
          unfolding applied(5) by (simp_all add: tuning_def)
        ultimately show ?thesis using True f applied(2,3,4) by simp
      qed
    qed
  qed
  from b l u show ?thesis by blast
qed

theorem live_tune_every_300_witness:
  "run env0 (init env0 CP0)
       (drive True # replicate 99 (idle True) @ idle True # replicate 298 (idle True)) = Inr ctl_399
   \<and> mpc_frame ctl_399 = 299 \<and> custom_tune (poll_toggle ctl_399 (store0 True))
   \<and> (TorqueMaxLatAccel (store0 True) = Some 27 \<and> TorqueFriction (store0 True) = Some 5
        \<and> (27 :: real) \<noteq> 0)
   \<and> map_sum id (\<lambda>s. (pid s, use_steering_angle s, friction s, mpc_frame s))
       (live_tune env0 (poll_toggle ctl_399 (store0 True)) (store0 True) CP0)
     = Inr (\<lparr>k_p = 20 / 27, k_i = 10 / 27, k_f = 5 / 27, pos_limit = 1, neg_limit = - 1,
             i_rate = 1 / 100, pid_p = 0, pid_i = 0, pid_d = 0, pid_f = 0\<rparr>, False, 1 / 20, 0)
   \<and> map_sum id (\<lambda>res. (tuning (snd res), mpc_frame (snd res)))
       (update env0 ctl_399 (store0 True) False (CS0 0) CP0 VM0 lp0 () 0 0 (llk0 0))
     = Inr (((20 / 27, 10 / 27, 5 / 27, 1, - 1), False, 1 / 20,
             Some (27 / 10), Some False, Some (1 / 20)), 0)"
proof -
  note T = live_tune_every_300 [OF run_to_399, where store = "store0 True" and CP = CP0
        and active = False and CS = "CS0 0" and VM = VM0 and params = lp0 and last_actuators = "()"
        and desired_curvature = 0 and desired_curvature_rate = 0 and llk = "llk0 0"]
  have c1: "mpc_frame ctl_399 = 299" by simp
  have c2: "custom_tune (poll_toggle ctl_399 (store0 True))"
    by (simp add: poll_toggle_def Let_def)
  have v: "TorqueMaxLatAccel (store0 True) = Some 27 \<and> TorqueFriction (store0 True) = Some 5
        \<and> (27 :: real) \<noteq> 0"
    by simp
  have l: "map_sum id (\<lambda>s. (pid s, use_steering_angle s, friction s, mpc_frame s))
       (live_tune env0 (poll_toggle ctl_399 (store0 True)) (store0 True) CP0)
     = Inr (\<lparr>k_p = 20 / 27, k_i = 10 / 27, k_f = 5 / 27, pos_limit = 1, neg_limit = - 1,
             i_rate = 1 / 100, pid_p = 0, pid_i = 0, pid_d = 0, pid_f = 0\<rparr>, False, 1 / 20, 0)"
    by (subst T [THEN conjunct2, THEN conjunct2, THEN conjunct1, rule_format, OF v]) simp
  have u: "map_sum id (\<lambda>res. (tuning (snd res), mpc_frame (snd res)))
       (update env0 ctl_399 (store0 True) False (CS0 0) CP0 VM0 lp0 () 0 0 (llk0 0))
     = Inr (((20 / 27, 10 / 27, 5 / 27, 1, - 1), False, 1 / 20,
             Some (27 / 10), Some False, Some (1 / 20)), 0)"
    by (subst cycle_400) (simp add: tuning_def)
  show ?thesis using run_to_399 c1 c2 v l u by blast
qed

subsection \<open>Friction compensation\<close>

text \<open>
  Claim C7. For an error of absolute value at most 0.2 the friction bias is
  \<open>friction * error / 0.2\<close>; for an error of at least 0.2 it is \<open>friction\<close>, and for an
  error of at most -0.2 it is \<open>- friction\<close>.
\<close>

theorem friction_compensation_piecewise:
  "(\<bar>err\<bar> \<le> 0.2 \<longrightarrow> friction_compensation self err = friction self * err / 0.2)
   \<and> (0.2 \<le> err \<longrightarrow> friction_compensation self err = friction self)
   \<and> (err \<le> - 0.2 \<longrightarrow> friction_compensation self err = - friction self)"
proof -
  have "friction_compensation self err =
          (if err \<le> - (1 / 5) then - friction self
           else if err \<le> 1 / 5 then (err + 1 / 5) * (2 * friction self) / (2 / 5) - friction self
           else friction self)"
    by (simp add: friction_compensation_def FRICTION_THRESHOLD_def)
  also have "(err + 1 / 5) * (2 * friction self) / (2 / 5) - friction self = friction self * err / (1 / 5)"
    by (simp add: field_simps)
  finally have eq: "friction_compensation self err =
          (if err \<le> - (1 / 5) then - friction self
           else if err \<le> 1 / 5 then friction self * err / (1 / 5)
           else friction self)" .
  have "friction_compensation self err = friction self * err / 0.2" if "\<bar>err\<bar> \<le> 0.2"
  proof (cases "err = - (1 / 5)")
    case True
    then show ?thesis using eq by simp
  next
    case False
    with that have "\<not> err \<le> - (1 / 5)" and "err \<le> 1 / 5" by auto
    then show ?thesis using eq by simp
  qed
  moreover have "friction_compensation self err = friction self" if "0.2 \<le> err"
  proof (cases "err = 1 / 5")
    case True
    then show ?thesis using eq by simp
  next
    case False
    with that have "\<not> err \<le> - (1 / 5)" and "\<not> err \<le> 1 / 5" by auto
    then show ?thesis using eq by simp
  qed
  moreover have "friction_compensation self err = - friction self" if "err \<le> - 0.2"
    using eq that by simp
  ultimately show ?thesis by blast
qed

theorem friction_compensation_piecewise_witness:
  "friction_compensation (init env0 CP0) (1 / 10) = 1 / 20
   \<and> friction_compensation (init env0 CP0) 4 = 1 / 10
   \<and> friction_compensation (init env0 CP0) (- 4) = - (1 / 10)"
  using friction_compensation_piecewise [of "1 / 10" "init env0 CP0"]
    friction_compensation_piecewise [of 4 "init env0 CP0"]
    friction_compensation_piecewise [of "- 4" "init env0 CP0"]
  by (simp add: init_def)

subsection \<open>The saturation flag\<close>

text \<open>
  Claim C8, as stated, fails at the boundary: with an output torque of absolute value
  exactly 0.999 = 1 - 1e-3 the flag is false, since line 104 tests
  \<open>steer_max - |output_torque| < 1e-3\<close> strictly.
\<close>

theorem saturated_flag_boundary:
  "map_sum id (\<lambda>res. (fst (fst res), log_active (snd (snd (fst res))),
                        log_saturated (snd (snd (fst res))), steer_max (snd res)))
     (update env0 (init env0 CP0) (store0 False) True (CS0 20) CP0 VM0 lp0 () (899 / 800400) 0 (llk0 0))
   = Inr (- (999 / 1000), True, False, 1)
   \<and> \<bar>- (999 / 1000) :: real\<bar> \<ge> 1 - 1 / 1000"
  using update_active_eq [OF _ tune_stage_fresh_off
        actual_curvature_fresh [where v = 20 and llk = "llk0 0"],
        where active = True and la = "()" and dc = "899 / 800400" and dcr = 0]
  by (simp add: Let_def low_speed_factor_def PIDController_update_def PIDController_init_def
        PIDController_reset_def clip_def friction_compensation_def FRICTION_THRESHOLD_def
        init_def power2_eq_square)

text \<open>
  Claim C8, amended. In an Active cycle of a controller run from its construction,
  \<open>steer_max\<close> is 1, the logged output is the returned torque, and the saturated flag is
  true if and only if the absolute value of the output torque is strictly greater than
  \<open>steer_max - 1e-3\<close>.
\<close>

theorem saturated_flag_strict:
  assumes "run env (init env CP_init) xs = Inr self"
    and "update env self store active CS CP VM params last_actuators desired_curvature
           desired_curvature_rate llk = Inr ((torque, angle, plog), self')"
    and "\<not> (vEgo CS < MIN_STEER_SPEED env \<or> \<not> active)"
  shows "steer_max self' = 1 \<and> log_output plog = torque
       \<and> (log_saturated plog \<longleftrightarrow> \<bar>torque\<bar> > steer_max self' - 1 / 1000)"
proof -
  have l: "limits_ok self" using assms(1) init_limits_ok run_limits_ok by blast
  from assms(2) show ?thesis
  proof (cases rule: update_cases)
    case inactive
    then show ?thesis using assms(3) by simp
  next
    case (active self1 c err r)
    have l1: "limits_ok self1" using l active(2) tune_stage_limits_ok by blast
    then have "steer_max self1 = 1" by (simp add: limits_ok_def)
    then show ?thesis using active(8,9) by auto
  qed
qed

theorem saturated_flag_strict_witness:
  "run env0 (init env0 CP0) ([] :: unit cycle_input list) = Inr (init env0 CP0)
   \<and> map_sum id (\<lambda>res. (fst (fst res), log_output (snd (snd (fst res))),
                          log_saturated (snd (snd (fst res))), steer_max (snd res)))
       (update env0 (init env0 CP0) (store0 False) True (CS0 20) CP0 VM0 lp0 () (1 / 100) 0 (llk0 0))
       = Inr (- (11 / 10), - (11 / 10), True, 1)
   \<and> \<not> (vEgo (CS0 20) < MIN_STEER_SPEED env0 \<or> \<not> True)
   \<and> \<bar>- (11 / 10) :: real\<bar> > 1 - 1 / 1000"
proof -
  have h1: "run env0 (init env0 CP0) ([] :: unit cycle_input list) = Inr (init env0 CP0)" by simp
  obtain plog self' where h2:
    "update env0 (init env0 CP0) (store0 False) True (CS0 20) CP0 VM0 lp0 () (1 / 100) 0 (llk0 0)
       = Inr ((- (11 / 10), 0, plog), self')"
    using update_active_eq [OF _ tune_stage_fresh_off
        actual_curvature_fresh [where v = 20 and llk = "llk0 0"],
        where active = True and la = "()" and dc = "1 / 100" and dcr = 0]
    by (simp add: Let_def low_speed_factor_def PIDController_update_def PIDController_init_def
        PIDController_reset_def clip_def friction_compensation_def FRICTION_THRESHOLD_def
        init_def power2_eq_square)
  have h3: "\<not> (vEgo (CS0 20) < MIN_STEER_SPEED env0 \<or> \<not> True)" by simp
  show ?thesis
    using h1 h3 saturated_flag_strict [OF h1 h2 h3] by (simp add: h2)
qed

subsection \<open>The yaw-rate division\<close>

text \<open>
  Claim C9. With a positive \<open>MIN_STEER_SPEED\<close>, no cycle raises ZeroDivisionError at the
  division of the yaw rate by the speed: in an Active cycle the speed is not zero, and
  in an Inactive cycle the localisation input is not read at all (the result is the
  same for any other one).
\<close>

theorem yaw_rate_division_guarded:
  assumes "0 < MIN_STEER_SPEED env"
  shows "update env self store active CS CP VM params last_actuators desired_curvature
           desired_curvature_rate llk \<noteq> Inl (ZeroDivisionError YawRateCurvature)
       \<and> (\<not> (vEgo CS < MIN_STEER_SPEED env \<or> \<not> active) \<longrightarrow> vEgo CS \<noteq> 0)
       \<and> (vEgo CS < MIN_STEER_SPEED env \<or> \<not> active \<longrightarrow>
            update env self store active CS CP VM params last_actuators desired_curvature
              desired_curvature_rate llk
            = update env self store active CS CP VM params last_actuators desired_curvature
              desired_curvature_rate llk')"
proof -
  have a: "actual_curvature s CS VM params llk \<noteq> Inl (ZeroDivisionError YawRateCurvature)"
    if "vEgo CS \<noteq> 0" for s
    using that
    by (simp add: actual_curvature_def py_index_def py_div_def Let_def)
  have l: "live_tune env s store CP \<noteq> Inl (ZeroDivisionError YawRateCurvature)" for s
    by (simp add: live_tune_def py_div_def Let_def split: option.splits)
  have t: "tune_stage env self store CP \<noteq> Inl (ZeroDivisionError YawRateCurvature)"
    using l by (simp add: tune_stage_def Let_def)
  have "update env self store active CS CP VM params last_actuators desired_curvature
           desired_curvature_rate llk \<noteq> Inl (ZeroDivisionError YawRateCurvature)"
  proof (cases "vEgo CS < MIN_STEER_SPEED env \<or> \<not> active")
    case True
    then show ?thesis
      using t by (auto simp add: update_inactive_eq split: sum.splits)
  next
    case False
    then have "vEgo CS \<noteq> 0" using assms by auto
    then show ?thesis
      using t a False
      by (auto simp add: update_def Let_def split: sum.splits prod.splits)
  qed
  moreover have "\<not> (vEgo CS < MIN_STEER_SPEED env \<or> \<not> active) \<longrightarrow> vEgo CS \<noteq> 0"
    using assms by auto
  moreover have "vEgo CS < MIN_STEER_SPEED env \<or> \<not> active \<longrightarrow>
            update env self store active CS CP VM params last_actuators desired_curvature
              desired_curvature_rate llk
            = update env self store active CS CP VM params last_actuators desired_curvature
              desired_curvature_rate llk'"
    by (simp add: update_inactive_eq)
  ultimately show ?thesis by blast
qed

theorem yaw_rate_division_guarded_witness:
  "0 < MIN_STEER_SPEED env0
   \<and> update env0 ((init env0 CP0)\<lparr>use_steering_angle := False\<rparr>) (store0 False) True (CS0 0)
        CP0 VM0 lp0 () (1 / 1000) 0 (llk0 (3 / 10))
      = Inr ((0, 0, new_message), (init env0 CP0)\<lparr>use_steering_angle := False, custom_tune_timer := 1\<rparr>)
   \<and> update env0 ((init env0 CP0)\<lparr>use_steering_angle := False\<rparr>) (store0 False) True (CS0 3)
        CP0 VM0 lp0 () (1 / 1000) 0 (llk0 (3 / 10))
      \<noteq> Inl (ZeroDivisionError YawRateCurvature)"
proof -
  have h: "0 < MIN_STEER_SPEED env0" by simp
  show ?thesis
    using h
      yaw_rate_division_guarded [OF h, where self = "(init env0 CP0)\<lparr>use_steering_angle := False\<rparr>"
        and store = "store0 False" and active = True and CS = "CS0 0" and CP = CP0 and VM = VM0
        and params = lp0 and last_actuators = "()" and desired_curvature = "1 / 1000"
        and desired_curvature_rate = 0 and llk = "llk0 (3 / 10)"]
      yaw_rate_division_guarded [OF h, where self = "(init env0 CP0)\<lparr>use_steering_angle := False\<rparr>"
        and store = "store0 False" and active = True and CS = "CS0 3" and CP = CP0 and VM = VM0
        and params = lp0 and last_actuators = "()" and desired_curvature = "1 / 1000"
        and desired_curvature_rate = 0 and llk = "llk0 (3 / 10)"]
    by (simp add: update_inactive_eq tune_stage_def poll_toggle_def init_def Let_def new_message_def)
qed

subsection \<open>The desired curvature rate\<close>

text \<open>
  Claim C10. Two calls of \<open>update\<close> from the same controller whose inputs differ only in
  the desired curvature rate have the same result: the same exception, or the same
  torque, angle, diagnostic record and controller afterwards.
\<close>

theorem update_ignores_curvature_rate:
  "update env self store active CS CP VM params last_actuators desired_curvature rate1 llk
   = update env self store active CS CP VM params last_actuators desired_curvature rate2 llk"
  unfolding update_def Let_def by (rule refl)

end
